theory Spec2Isabelle
  imports Complex_Main "HOL-Library.Monad_Syntax"
begin

section \<open>The haptics demo \<open>commSome.cpp\<close>\<close>

text \<open>
  The program is one C++ file over the CHAI3D engine and GLFW.  This theory embeds the
  parts of it that carry behaviour of their own: the body of the haptics loop
  (\<open>renderHaptics\<close>), the construction of the sphere objects in \<open>main\<close>, the
  key callback \<open>onKeyCallback\<close>, and the shutdown handshake between \<open>close\<close> and
  \<open>renderHaptics\<close>.

  Conventions of the embedding.
  \<^item> A C++ \<open>double\<close> is a real number.  Rounding, infinities and NaN are outside the
    model; every statement below is about the exact arithmetic the source text denotes.
  \<^item> The engine is not part of the program.  What the engine hands back to the loop in
    one iteration (device position, interaction force, velocity, global positions and
    radii of the spheres) is a record of readings, a parameter of the iteration.
  \<^item> Every call that asks the engine to do something is appended to a log, so that the
    order and the number of the calls can be stated.
\<close>

subsection \<open>Vectors\<close>

datatype cVector3d = Vec3 (vx: real) (vy: real) (vz: real)

text \<open>\<open>a + b\<close>, \<open>a - b\<close>, \<open>-a\<close> on vectors.\<close>

definition vadd :: "cVector3d \<Rightarrow> cVector3d \<Rightarrow> cVector3d" where
  "vadd a b = Vec3 (vx a + vx b) (vy a + vy b) (vz a + vz b)"

definition vsub :: "cVector3d \<Rightarrow> cVector3d \<Rightarrow> cVector3d" where
  "vsub a b = Vec3 (vx a - vx b) (vy a - vy b) (vz a - vz b)"

definition vneg :: "cVector3d \<Rightarrow> cVector3d" where
  "vneg a = Vec3 (- vx a) (- vy a) (- vz a)"

text \<open>\<open>k * a\<close> (scalar on the left), \<open>a * k\<close> and \<open>a / k\<close> (scalar on the right).\<close>

definition smul :: "real \<Rightarrow> cVector3d \<Rightarrow> cVector3d" where
  "smul k a = Vec3 (k * vx a) (k * vy a) (k * vz a)"

definition vmul :: "cVector3d \<Rightarrow> real \<Rightarrow> cVector3d" where
  "vmul a k = Vec3 (vx a * k) (vy a * k) (vz a * k)"

definition vdiv :: "cVector3d \<Rightarrow> real \<Rightarrow> cVector3d" where
  "vdiv a k = Vec3 (vx a / k) (vy a / k) (vz a / k)"

text \<open>\<open>a.length()\<close>: the Euclidean norm.\<close>

definition vlength :: "cVector3d \<Rightarrow> real" where
  "vlength a = sqrt (vx a * vx a + vy a * vy a + vz a * vz a)"

text \<open>\<open>a.dot(b)\<close>; the program does not call it, the statements about directions do.\<close>

definition vdot :: "cVector3d \<Rightarrow> cVector3d \<Rightarrow> real" where
  "vdot a b = vx a * vx b + vy a * vy b + vz a * vz b"

subsection \<open>The engine as seen from the haptics loop\<close>

datatype sphere_id = Object0 | Object1 | Object2 | Object3

text \<open>
  The values the getters return during one iteration, after
  \<open>computeGlobalPositions\<close>, \<open>updateFromDevice\<close> and \<open>computeInteractionForces\<close>.
\<close>

record readings =
  deviceGlobalPos :: cVector3d
  deviceGlobalForce :: cVector3d
  deviceGlobalLinVel :: cVector3d
  globalPos :: "sphere_id \<Rightarrow> cVector3d"
  radius :: "sphere_id \<Rightarrow> real"

datatype engine_call =
    ComputeGlobalPositions
  | UpdateFromDevice
  | ComputeInteractionForces
  | SetLocalPos sphere_id cVector3d
  | SetDeviceGlobalForce cVector3d
  | ApplyToDevice
  | SignalHaptics

text \<open>
  The variables of \<open>renderHaptics\<close> that live across iterations, the global
  \<open>inLoop\<close>, the two shared flags, the local position of \<open>object2\<close> (read with
  \<open>getLocalPos\<close>, written with \<open>setLocalPos\<close>), and the log.
\<close>

record haptics =
  simulationRunning :: bool
  simulationFinished :: bool
  inLoop :: bool
  oscTime0 :: real
  oscTime3 :: real
  object2Vel :: cVector3d
  object2LocalPos :: cVector3d
  calls :: "engine_call list"

definition timeStep :: real where "timeStep = 0.001"
definition freq :: real where "freq = 6.0"
definition amp :: real where "amp = 6.0"
definition mass :: real where "mass = 0.5"
definition damping :: real where "damping = 0.0"
definition object2StartPos :: cVector3d where "object2StartPos = Vec3 0.0 1.0 0.0"

definition engine :: "engine_call \<Rightarrow> haptics \<Rightarrow> haptics" where
  "engine c s = s\<lparr>calls := calls s @ [c]\<rparr>"

subsection \<open>The three stages of one iteration\<close>

text \<open>
  Lines 747 to 766.  The block reads the tool velocity, forms \<open>Kv * linearVelocity\<close> with
  \<open>Kv = 0.1\<close>, adds it to the force and multiplies the sum by 4.
\<close>

definition object0_radiusSum :: "readings \<Rightarrow> real" where
  "object0_radiusSum r = 0.05 + radius r Object0"

definition object0_stage :: "readings \<Rightarrow> cVector3d \<Rightarrow> cVector3d" where
  "object0_stage r baseForce =
    (let toolPos = deviceGlobalPos r;
         objPos = globalPos r Object0;
         dir = vsub objPos toolPos;
         dist = vlength dir;
         radiusSum = object0_radiusSum r
     in if dist < radiusSum
        then (let linearVelocity = deviceGlobalLinVel r;
                  Kv = 0.1;
                  forceDamping = smul Kv linearVelocity
              in vmul (vadd baseForce forceDamping) 4)
        else baseForce)"

text \<open>
  Lines 768 to 791.  The threshold depends on the flag \<open>inLoop\<close> left by the previous
  iteration.  The source writes the constant \<open>3.14159\<close> where the formula has \<open>\<pi>\<close>.
\<close>

definition object3_radiusSum :: "readings \<Rightarrow> haptics \<Rightarrow> real" where
  "object3_radiusSum r s =
    (if inLoop s then 0.05 + radius r Object3 * 2 else (0.05 + radius r Object3))"

definition object3_stage :: "readings \<Rightarrow> cVector3d \<times> haptics \<Rightarrow> cVector3d \<times> haptics" where
  "object3_stage r = (\<lambda>(baseForce, s).
    (let toolPos = deviceGlobalPos r;
         objPos = globalPos r Object3;
         dir = vsub objPos toolPos;
         dist = vlength dir;
         radiusSum = object3_radiusSum r s
     in if dist < radiusSum
        then (let t = oscTime3 s + timeStep;
                  f = amp * sin (2.0 * 3.14159 * freq * t);
                  f2 = amp * cos (2.0 * 3.14159 * freq * t)
              in (vadd baseForce (Vec3 (- f2) f f2), s\<lparr>oscTime3 := t, inLoop := True\<rparr>))
        else (baseForce, s\<lparr>oscTime3 := 0.0, inLoop := False\<rparr>)))"

text \<open>
  Lines 793 to 816, in the three steps of the source: the contact test with the velocity
  update, the position update with the decay of the velocity, and the reset when the
  sphere has left the unit ball around its start position.  (\<open>dir.normalize()\<close> in the
  contact branch changes a local that is not read again.)
\<close>

definition object2_radiusSum :: "readings \<Rightarrow> real" where
  "object2_radiusSum r = 0.03 + radius r Object2"

definition object2_contact :: "readings \<Rightarrow> cVector3d \<times> haptics \<Rightarrow> cVector3d \<times> haptics" where
  "object2_contact r = (\<lambda>(baseForce, s).
    (let toolPos = deviceGlobalPos r;
         objPos = globalPos r Object2;
         dir = vsub objPos toolPos;
         dist = vlength dir;
         radiusSum = object2_radiusSum r
     in if dist < radiusSum
        then (let netForce = vsub (vneg baseForce) (smul damping (object2Vel s))
              in (vmul baseForce 10,
                  s\<lparr>object2Vel := vadd (object2Vel s) (vmul (vdiv netForce mass) timeStep)\<rparr>))
        else (baseForce, s)))"

definition setLocalPos :: "sphere_id \<Rightarrow> cVector3d \<Rightarrow> haptics \<Rightarrow> haptics" where
  "setLocalPos obj p s =
    engine (SetLocalPos obj p) (if obj = Object2 then s\<lparr>object2LocalPos := p\<rparr> else s)"

definition object2_advance :: "haptics \<Rightarrow> haptics" where
  "object2_advance s =
    (let s1 = setLocalPos Object2 (vadd (object2LocalPos s) (vmul (object2Vel s) timeStep)) s
     in s1\<lparr>object2Vel := vmul (object2Vel s1) 0.999\<rparr>)"

definition object2_bound :: "haptics \<Rightarrow> haptics" where
  "object2_bound s =
    (if vlength (vsub (object2LocalPos s) object2StartPos) > 1.0
     then setLocalPos Object2 object2StartPos (s\<lparr>object2Vel := Vec3 0 0 0\<rparr>)
     else s)"

definition object2_stage :: "readings \<Rightarrow> cVector3d \<times> haptics \<Rightarrow> cVector3d \<times> haptics" where
  "object2_stage r fs =
    (let (baseForce, s) = object2_contact r fs
     in (baseForce, object2_bound (object2_advance s)))"

subsection \<open>One iteration and the loop\<close>

definition haptics_iteration :: "readings \<Rightarrow> haptics \<Rightarrow> haptics" where
  "haptics_iteration r s =
    (let s = engine ComputeGlobalPositions s;
         s = engine UpdateFromDevice s;
         s = engine ComputeInteractionForces s;
         baseForce = deviceGlobalForce r;
         baseForce = object0_stage r baseForce;
         (baseForce, s) = object3_stage r (baseForce, s);
         (baseForce, s) = object2_stage r (baseForce, s);
         s = engine (SetDeviceGlobalForce baseForce) s;
         s = engine ApplyToDevice s
     in engine SignalHaptics s)"

text \<open>
  \<open>while (simulationRunning) { ... }\<close>.  Only the other thread clears the flag, so the
  loop is run against a list of observations: for each test of the loop condition,
  whether the flag has been cleared since the previous test, and the readings of the
  iteration that follows.  \<open>None\<close> says that the observations ran out before the loop
  returned.
\<close>

fun haptics_loop :: "(bool \<times> readings) list \<Rightarrow> haptics \<Rightarrow> haptics option" where
  "haptics_loop [] s = None"
| "haptics_loop ((cleared, r) # obs) s =
    (let s = (if cleared then s\<lparr>simulationRunning := False\<rparr> else s)
     in if simulationRunning s then haptics_loop obs (haptics_iteration r s) else Some s)"

definition renderHaptics :: "(bool \<times> readings) list \<Rightarrow> haptics \<Rightarrow> haptics option" where
  "renderHaptics obs s =
    (let s = s\<lparr>simulationRunning := True, simulationFinished := False,
               oscTime0 := 0.0, oscTime3 := 0.0, object2Vel := Vec3 0.0 0.0 0.0\<rparr>
     in map_option (\<lambda>s. s\<lparr>simulationFinished := True\<rparr>) (haptics_loop obs s))"

subsection \<open>The scene built by \<open>main\<close>\<close>

text \<open>
  Lines 252 to 493 of \<open>main\<close>, as far as they build the scene graph and the haptic
  side of the four spheres: the children of the world in the order they are added, and
  for every sphere its radius, its local position, the material properties that
  \<open>main\<close> sets and the effects it creates.  A material property that \<open>main\<close> never
  sets is \<open>None\<close>: it keeps whatever default the engine gives it.  Statements that
  are commented out in the source are not part of the program and have no counterpart
  here.  Textures and colours are left out.
\<close>

datatype node = CameraNode | LightNode | ToolNode | SphereNode sphere_id

datatype effect = EffectSurface | EffectViscosity | EffectStickSlip | EffectVibration
  | EffectMagnetic

record material =
  stiffness :: "real option"
  viscosity :: "real option"
  stickSlipForceMax :: "real option"
  stickSlipStiffness :: "real option"
  vibrationFrequency :: "real option"
  vibrationAmplitude :: "real option"

record sphere =
  m_radius :: real
  m_localPos :: cVector3d
  m_material :: material
  m_effects :: "effect list"

record scene =
  children :: "node list"
  spheres :: "sphere_id \<rightharpoonup> sphere"

record cHapticDeviceInfo =
  m_maxLinearForce :: real
  m_maxLinearStiffness :: real
  m_maxLinearDamping :: real

definition new_cWorld :: scene where
  "new_cWorld = \<lparr>children = [], spheres = Map.empty\<rparr>"

definition new_material :: material where
  "new_material = \<lparr>stiffness = None, viscosity = None, stickSlipForceMax = None,
     stickSlipStiffness = None, vibrationFrequency = None, vibrationAmplitude = None\<rparr>"

definition addChild :: "node \<Rightarrow> scene \<Rightarrow> scene option" where
  "addChild n sc = Some (sc\<lparr>children := children sc @ [n]\<rparr>)"

definition new_cShapeSphere :: "sphere_id \<Rightarrow> real \<Rightarrow> scene \<Rightarrow> scene option" where
  "new_cShapeSphere obj rad sc =
    Some (sc\<lparr>spheres := (spheres sc)(obj \<mapsto>
      \<lparr>m_radius = rad, m_localPos = Vec3 0 0 0, m_material = new_material, m_effects = []\<rparr>)\<rparr>)"

text \<open>
  A member call through one of the pointers \<open>object0\<close> to \<open>object3\<close>.  Before the
  \<open>new\<close> the pointer is null and the call has no defined result: \<open>None\<close>.
\<close>

definition on_sphere :: "sphere_id \<Rightarrow> (sphere \<Rightarrow> sphere) \<Rightarrow> scene \<Rightarrow> scene option" where
  "on_sphere obj f sc =
    (case spheres sc obj of
       None \<Rightarrow> None
     | Some sp \<Rightarrow> Some (sc\<lparr>spheres := (spheres sc)(obj \<mapsto> f sp)\<rparr>))"

definition on_material :: "sphere_id \<Rightarrow> (material \<Rightarrow> material) \<Rightarrow> scene \<Rightarrow> scene option" where
  "on_material obj f = on_sphere obj (\<lambda>sp. sp\<lparr>m_material := f (m_material sp)\<rparr>)"

definition setLocalPos_sphere :: "sphere_id \<Rightarrow> cVector3d \<Rightarrow> scene \<Rightarrow> scene option" where
  "setLocalPos_sphere obj p = on_sphere obj (\<lambda>sp. sp\<lparr>m_localPos := p\<rparr>)"

definition createEffect :: "sphere_id \<Rightarrow> effect \<Rightarrow> scene \<Rightarrow> scene option" where
  "createEffect obj e = on_sphere obj (\<lambda>sp. sp\<lparr>m_effects := m_effects sp @ [e]\<rparr>)"

definition setStiffness :: "sphere_id \<Rightarrow> real \<Rightarrow> scene \<Rightarrow> scene option" where
  "setStiffness obj v = on_material obj (\<lambda>m. m\<lparr>stiffness := Some v\<rparr>)"

definition setViscosity :: "sphere_id \<Rightarrow> real \<Rightarrow> scene \<Rightarrow> scene option" where
  "setViscosity obj v = on_material obj (\<lambda>m. m\<lparr>viscosity := Some v\<rparr>)"

definition setStickSlipForceMax :: "sphere_id \<Rightarrow> real \<Rightarrow> scene \<Rightarrow> scene option" where
  "setStickSlipForceMax obj v = on_material obj (\<lambda>m. m\<lparr>stickSlipForceMax := Some v\<rparr>)"

definition setStickSlipStiffness :: "sphere_id \<Rightarrow> real \<Rightarrow> scene \<Rightarrow> scene option" where
  "setStickSlipStiffness obj v = on_material obj (\<lambda>m. m\<lparr>stickSlipStiffness := Some v\<rparr>)"

definition setVibrationFrequency :: "sphere_id \<Rightarrow> real \<Rightarrow> scene \<Rightarrow> scene option" where
  "setVibrationFrequency obj v = on_material obj (\<lambda>m. m\<lparr>vibrationFrequency := Some v\<rparr>)"

definition setVibrationAmplitude :: "sphere_id \<Rightarrow> real \<Rightarrow> scene \<Rightarrow> scene option" where
  "setVibrationAmplitude obj v = on_material obj (\<lambda>m. m\<lparr>vibrationAmplitude := Some v\<rparr>)"

text \<open>
  The parameters are the specification record of the device and the value of
  \<open>tool->getWorkspaceScaleFactor()\<close>.
\<close>

definition main_scene :: "cHapticDeviceInfo \<Rightarrow> real \<Rightarrow> scene option" where
  "main_scene hapticDeviceInfo workspaceScaleFactor =
    (let maxLinearForce = min (m_maxLinearForce hapticDeviceInfo) 7.0;
         maxStiffness = m_maxLinearStiffness hapticDeviceInfo / workspaceScaleFactor;
         maxDamping = m_maxLinearDamping hapticDeviceInfo / workspaceScaleFactor
     in do {
       sc \<leftarrow> addChild CameraNode new_cWorld;
       sc \<leftarrow> addChild LightNode sc;
       sc \<leftarrow> addChild ToolNode sc;

       sc \<leftarrow> new_cShapeSphere Object0 0.5 sc;
       sc \<leftarrow> addChild (SphereNode Object0) sc;
       sc \<leftarrow> setLocalPos_sphere Object0 (Vec3 0.0 (- 1.2) 0.0) sc;
       sc \<leftarrow> createEffect Object0 EffectSurface sc;

       sc \<leftarrow> new_cShapeSphere Object1 0.3 sc;
       sc \<leftarrow> setLocalPos_sphere Object1 (Vec3 0.0 0 0.0) sc;
       sc \<leftarrow> setViscosity Object1 (0.9 * maxDamping) sc;
       sc \<leftarrow> createEffect Object1 EffectViscosity sc;

       sc \<leftarrow> new_cShapeSphere Object2 0.3 sc;
       sc \<leftarrow> addChild (SphereNode Object2) sc;
       sc \<leftarrow> setLocalPos_sphere Object2 (Vec3 0.0 1 0) sc;
       sc \<leftarrow> setStickSlipForceMax Object2 (0.2 * maxLinearForce) sc;
       sc \<leftarrow> setStickSlipStiffness Object2 (0.6 * maxStiffness) sc;
       sc \<leftarrow> createEffect Object2 EffectStickSlip sc;

       sc \<leftarrow> new_cShapeSphere Object3 0.5 sc;
       sc \<leftarrow> addChild (SphereNode Object3) sc;
       sc \<leftarrow> setLocalPos_sphere Object3 (Vec3 0 0.0 0) sc;
       sc \<leftarrow> setVibrationFrequency Object3 60 sc;
       sc \<leftarrow> setVibrationAmplitude Object3 (0.5 * maxLinearForce) sc;
       sc \<leftarrow> setStiffness Object3 0.1 sc;
       sc \<leftarrow> createEffect Object3 EffectVibration sc;
       sc \<leftarrow> createEffect Object3 EffectSurface sc;
       createEffect Object3 EffectViscosity sc
     })"

text \<open>Reading a sphere out of the result of \<open>main_scene\<close>.\<close>

definition sphere_of :: "scene option \<Rightarrow> sphere_id \<Rightarrow> sphere option" where
  "sphere_of so obj = (case so of None \<Rightarrow> None | Some sc \<Rightarrow> spheres sc obj)"

definition material_of :: "scene option \<Rightarrow> sphere_id \<Rightarrow> material option" where
  "material_of so obj = map_option m_material (sphere_of so obj)"

definition effects_of :: "scene option \<Rightarrow> sphere_id \<Rightarrow> effect list option" where
  "effects_of so obj = map_option m_effects (sphere_of so obj)"

subsection \<open>The key callback and the graphic loop\<close>

text \<open>Constants of \<open>GLFW/glfw3.h\<close>, with the values of that header.\<close>

definition GLFW_RELEASE :: int where "GLFW_RELEASE = 0"
definition GLFW_PRESS :: int where "GLFW_PRESS = 1"
definition GLFW_REPEAT :: int where "GLFW_REPEAT = 2"
definition GLFW_TRUE :: int where "GLFW_TRUE = 1"
definition GLFW_KEY_ESCAPE :: int where "GLFW_KEY_ESCAPE = 256"
definition GLFW_KEY_F :: int where "GLFW_KEY_F = 70"
definition GLFW_KEY_M :: int where "GLFW_KEY_M = 77"
definition GLFW_KEY_Q :: int where "GLFW_KEY_Q = 81"
definition GLFW_SAMPLES :: int where "GLFW_SAMPLES = 0x0002100D"

record GLFWvidmode =
  width :: int
  height :: int
  refreshRate :: int

text \<open>
  What \<open>glfwSetWindowMonitor\<close> last asked for: the monitor (\<open>None\<close> for \<open>NULL\<close>,
  windowed mode), position, size and refresh rate.
\<close>

record placement =
  monitor :: "nat option"
  xpos :: int
  ypos :: int
  pwidth :: int
  pheight :: int
  prefreshRate :: int

text \<open>
  The globals the callback reads and writes, and the state it reaches through GLFW and
  through the camera: the close flag and the placement of every window (windows are
  handles), the camera's mirror setting, the swap interval and the window hints.  The
  primary monitor and its video mode are what \<open>glfwGetPrimaryMonitor\<close> and
  \<open>glfwGetVideoMode\<close> return.
\<close>

record gui =
  fullscreen :: bool
  mirroredDisplay :: bool
  window :: nat
  cameraMirrorVertical :: bool
  windowShouldClose :: "nat \<Rightarrow> bool"
  windowPlacement :: "nat \<Rightarrow> placement option"
  contextSwapInterval :: "int option"
  windowHints :: "(int \<times> int) list"
  primaryMonitor :: nat
  videoMode :: GLFWvidmode

definition swapInterval :: int where "swapInterval = 1"

text \<open>The conversion of a \<open>double\<close> to \<open>int\<close> in an initialisation: towards zero.\<close>

definition int_of_double :: "real \<Rightarrow> int" where
  "int_of_double v = (if 0 \<le> v then \<lfloor>v\<rfloor> else \<lceil>v\<rceil>)"

definition glfwSetWindowShouldClose :: "nat \<Rightarrow> int \<Rightarrow> gui \<Rightarrow> gui" where
  "glfwSetWindowShouldClose w v g = g\<lparr>windowShouldClose := (windowShouldClose g)(w := (v \<noteq> 0))\<rparr>"

definition glfwSetWindowMonitor ::
  "nat \<Rightarrow> nat option \<Rightarrow> int \<Rightarrow> int \<Rightarrow> int \<Rightarrow> int \<Rightarrow> int \<Rightarrow> gui \<Rightarrow> gui" where
  "glfwSetWindowMonitor w m x y wd ht rate g =
    g\<lparr>windowPlacement := (windowPlacement g)(w \<mapsto>
        \<lparr>monitor = m, xpos = x, ypos = y, pwidth = wd, pheight = ht, prefreshRate = rate\<rparr>)\<rparr>"

definition glfwSwapInterval :: "int \<Rightarrow> gui \<Rightarrow> gui" where
  "glfwSwapInterval n g = g\<lparr>contextSwapInterval := Some n\<rparr>"

definition glfwWindowHint :: "int \<Rightarrow> int \<Rightarrow> gui \<Rightarrow> gui" where
  "glfwWindowHint h v g = g\<lparr>windowHints := windowHints g @ [(h, v)]\<rparr>"

definition setMirrorVertical :: "bool \<Rightarrow> gui \<Rightarrow> gui" where
  "setMirrorVertical b g = g\<lparr>cameraMirrorVertical := b\<rparr>"

definition onKeyCallback :: "nat \<Rightarrow> int \<Rightarrow> int \<Rightarrow> int \<Rightarrow> int \<Rightarrow> gui \<Rightarrow> gui" where
  "onKeyCallback a_window a_key a_scancode a_action a_mods g =
    (if a_action \<noteq> GLFW_PRESS \<and> a_action \<noteq> GLFW_REPEAT then g
     else if a_key = GLFW_KEY_ESCAPE \<or> a_key = GLFW_KEY_Q
       then glfwSetWindowShouldClose a_window GLFW_TRUE g
     else if a_key = GLFW_KEY_F
       then (let g = g\<lparr>fullscreen := \<not> fullscreen g\<rparr>;
                 monitor = primaryMonitor g;
                 mode = videoMode g;
                 g = (if fullscreen g
                      then glfwSetWindowMonitor (window g) (Some monitor) 0 0
                             (width mode) (height mode) (refreshRate mode) g
                      else (let w = int_of_double (0.8 * real_of_int (height mode));
                                h = int_of_double (0.5 * real_of_int (height mode));
                                x = int_of_double (0.5 * real_of_int (width mode - w));
                                y = int_of_double (0.5 * real_of_int (height mode - h))
                            in glfwSetWindowMonitor (window g) None x y w h (refreshRate mode) g));
                 g = glfwSwapInterval swapInterval g
             in glfwWindowHint GLFW_SAMPLES 4 g)
     else if a_key = GLFW_KEY_M
       then (let g = g\<lparr>mirroredDisplay := \<not> mirroredDisplay g\<rparr>
             in setMirrorVertical (mirroredDisplay g) g)
     else g)"

text \<open>
  \<open>glfwPollEvents\<close> hands the pending key events to the callback registered for
  \<open>window\<close> (\<open>glfwSetKeyCallback(window, onKeyCallback)\<close>).  A key event is key,
  scancode, action and modifiers.
\<close>

type_synonym key_event = "int \<times> int \<times> int \<times> int"

definition glfwPollEvents :: "key_event list \<Rightarrow> gui \<Rightarrow> gui" where
  "glfwPollEvents evs g =
    fold (\<lambda>(a_key, a_scancode, a_action, a_mods) g.
            onKeyCallback (window g) a_key a_scancode a_action a_mods g) evs g"

text \<open>
  \<open>while (!glfwWindowShouldClose(window)) { renderGraphics(); glfwPollEvents(); }\<close>,
  run against the events that each call of \<open>glfwPollEvents\<close> delivers.
  \<open>renderGraphics\<close> writes to the label, the frame buffer and the frequency counter
  only, none of them in the record.  \<open>None\<close>: the loop has not ended when the listed
  polls are used up.
\<close>

fun main_graphic_loop :: "key_event list list \<Rightarrow> gui \<Rightarrow> gui option" where
  "main_graphic_loop [] g = (if windowShouldClose g (window g) then Some g else None)"
| "main_graphic_loop (evs # polls) g =
    (if windowShouldClose g (window g) then Some g
     else main_graphic_loop polls (glfwPollEvents evs g))"

subsection \<open>The two threads at shutdown\<close>

text \<open>
  \<open>main\<close> starts \<open>renderHaptics\<close> on the haptics thread (line 527) and registers
  \<open>close\<close> to run on the main thread at exit (line 530).  The two functions share the
  flags \<open>simulationRunning\<close> and \<open>simulationFinished\<close> and nothing orders their
  statements, so they are run here statement by statement under a schedule that says
  whose turn it is.  A program counter names the statement a thread executes next.

  For \<open>renderHaptics\<close>: the assignment of line 722; the assignment of line 723, taken
  together with the initialisation of the locals that follows it; the test of line 738;
  the loop body (the thread is inside the body from the test that found the flag set
  until the step that completes the iteration); the assignment of line 823; returned.
\<close>

datatype haptics_pc = H_setRunning | H_clearFinished | H_test | H_body | H_setFinished
  | H_returned

text \<open>
  For \<open>close\<close>: the assignment of line 653; the test of line 656, which sleeps 100 ms
  and comes back to itself while \<open>simulationFinished\<close> is false; \<open>tool->stop()\<close>; the
  three \<open>delete\<close>s; returned.
\<close>

datatype close_pc = C_clearRunning | C_wait | C_stop | C_delete | C_returned

record threads =
  shared :: haptics
  hpc :: haptics_pc
  cpc :: close_pc
  toolStopped :: bool
  resourcesDeleted :: bool

definition step_renderHaptics :: "readings \<Rightarrow> threads \<Rightarrow> threads" where
  "step_renderHaptics r t =
    (case hpc t of
       H_setRunning \<Rightarrow>
         t\<lparr>shared := (shared t)\<lparr>simulationRunning := True\<rparr>, hpc := H_clearFinished\<rparr>
     | H_clearFinished \<Rightarrow>
         t\<lparr>shared := (shared t)\<lparr>simulationFinished := False, oscTime0 := 0.0, oscTime3 := 0.0,
                                 object2Vel := Vec3 0.0 0.0 0.0\<rparr>,
           hpc := H_test\<rparr>
     | H_test \<Rightarrow>
         (if simulationRunning (shared t) then t\<lparr>hpc := H_body\<rparr> else t\<lparr>hpc := H_setFinished\<rparr>)
     | H_body \<Rightarrow>
         t\<lparr>shared := haptics_iteration r (shared t), hpc := H_test\<rparr>
     | H_setFinished \<Rightarrow>
         t\<lparr>shared := (shared t)\<lparr>simulationFinished := True\<rparr>, hpc := H_returned\<rparr>
     | H_returned \<Rightarrow> t)"

definition step_close :: "threads \<Rightarrow> threads" where
  "step_close t =
    (case cpc t of
       C_clearRunning \<Rightarrow>
         t\<lparr>shared := (shared t)\<lparr>simulationRunning := False\<rparr>, cpc := C_wait\<rparr>
     | C_wait \<Rightarrow>
         (if \<not> simulationFinished (shared t) then t else t\<lparr>cpc := C_stop\<rparr>)
     | C_stop \<Rightarrow> t\<lparr>toolStopped := True, cpc := C_delete\<rparr>
     | C_delete \<Rightarrow> t\<lparr>resourcesDeleted := True, cpc := C_returned\<rparr>
     | C_returned \<Rightarrow> t)"

text \<open>
  One entry of a schedule: the haptics thread takes a step (with the readings the
  engine would give an iteration that completes in this step), or the main thread
  takes a step of \<open>close\<close>.
\<close>

datatype turn = HapticsThread readings | MainThread

fun run_threads :: "turn list \<Rightarrow> threads \<Rightarrow> threads" where
  "run_threads [] t = t"
| "run_threads (HapticsThread r # sch) t = run_threads sch (step_renderHaptics r t)"
| "run_threads (MainThread # sch) t = run_threads sch (step_close t)"

text \<open>
  The state in which both functions are about to start: the flags have the values of
  their declarations (lines 72 and 75), \<open>inLoop\<close> that of line 718, \<open>object2\<close> is where
  \<open>main\<close> put it, and the tool has been started.
\<close>

definition threads_start :: threads where
  "threads_start =
    \<lparr>shared = \<lparr>simulationRunning = False, simulationFinished = True, inLoop = False,
               oscTime0 = 0, oscTime3 = 0, object2Vel = Vec3 0 0 0,
               object2LocalPos = Vec3 0 1 0, calls = []\<rparr>,
     hpc = H_setRunning, cpc = C_clearRunning, toolStopped = False,
     resourcesDeleted = False\<rparr>"

text \<open>
  What holds in every state reached once the haptics thread has passed line 723 before
  \<open>close\<close> begins.
\<close>

definition handshake :: "threads \<Rightarrow> bool" where
  "handshake t =
    (hpc t \<noteq> H_setRunning \<and> hpc t \<noteq> H_clearFinished \<and>
     (hpc t = H_returned) = simulationFinished (shared t) \<and>
     (cpc t = C_stop \<or> cpc t = C_delete \<or> cpc t = C_returned \<longrightarrow> hpc t = H_returned) \<and>
     toolStopped t = (cpc t = C_delete \<or> cpc t = C_returned))"

subsection \<open>Concrete inputs\<close>

text \<open>
  Readings in which the spheres sit where \<open>main\<close> puts them, with the radii \<open>main\<close>
  gives them, for a tool position, an engine force and a tool velocity; and the state
  in which \<open>renderHaptics\<close> enters its loop for the first time.
\<close>

definition demo_readings :: "cVector3d \<Rightarrow> cVector3d \<Rightarrow> cVector3d \<Rightarrow> readings" where
  "demo_readings toolPos force vel =
    \<lparr>deviceGlobalPos = toolPos, deviceGlobalForce = force, deviceGlobalLinVel = vel,
     globalPos = (\<lambda>obj. case obj of Object0 \<Rightarrow> Vec3 0 (- 1.2) 0 | Object1 \<Rightarrow> Vec3 0 0 0
                        | Object2 \<Rightarrow> Vec3 0 1 0 | Object3 \<Rightarrow> Vec3 0 0 0),
     radius = (\<lambda>obj. case obj of Object0 \<Rightarrow> 0.5 | Object1 \<Rightarrow> 0.3
                        | Object2 \<Rightarrow> 0.3 | Object3 \<Rightarrow> 0.5)\<rparr>"

definition loop_entry :: haptics where
  "loop_entry =
    \<lparr>simulationRunning = True, simulationFinished = False, inLoop = False,
     oscTime0 = 0, oscTime3 = 0, object2Vel = Vec3 0 0 0,
     object2LocalPos = Vec3 0 1 0, calls = []\<rparr>"

definition demo_device :: cHapticDeviceInfo where
  "demo_device = \<lparr>m_maxLinearForce = 10, m_maxLinearStiffness = 1000, m_maxLinearDamping = 20\<rparr>"

definition other_device :: cHapticDeviceInfo where
  "other_device = \<lparr>m_maxLinearForce = 4, m_maxLinearStiffness = 300, m_maxLinearDamping = 6\<rparr>"

definition demo_gui :: gui where
  "demo_gui =
    \<lparr>fullscreen = False, mirroredDisplay = False, window = 1, cameraMirrorVertical = False,
     windowShouldClose = (\<lambda>w. False), windowPlacement = Map.empty,
     contextSwapInterval = Some 1, windowHints = [],
     primaryMonitor = 0, videoMode = \<lparr>width = 1920, height = 1080, refreshRate = 60\<rparr>\<rparr>"

section \<open>Properties\<close>

subsection \<open>Auxiliary facts\<close>

lemmas vec_defs = vadd_def vsub_def vneg_def smul_def vmul_def vdiv_def
lemmas const_defs = timeStep_def freq_def amp_def mass_def damping_def object2StartPos_def

lemma sqrt_less_iff_sq: "0 < b \<Longrightarrow> (sqrt a < b) = (a < b * b)"
  by (metis abs_of_pos real_sqrt_abs2 real_sqrt_less_iff)

lemma sqrt_gt_iff_sq: "0 \<le> b \<Longrightarrow> (b < sqrt a) = (b * b < a)"
  by (metis abs_of_nonneg real_sqrt_abs2 real_sqrt_less_iff)

lemma vlength_zero [simp]: "vlength (Vec3 0 0 0) = 0"
  by (simp add: vlength_def)

lemma vlength_self [simp]: "vlength (vsub a a) = 0"
  by (simp add: vlength_def vsub_def)

lemma vlength_less_iff:
  "0 < b \<Longrightarrow> (vlength v < b) = (vx v * vx v + vy v * vy v + vz v * vz v < b * b)"
  by (simp add: vlength_def sqrt_less_iff_sq)

lemma vlength_gt_iff:
  "0 \<le> b \<Longrightarrow> (b < vlength v) = (b * b < vx v * vx v + vy v * vy v + vz v * vz v)"
  by (simp add: vlength_def sqrt_gt_iff_sq)

lemma vlength_times_less_iff:
  assumes "0 < c" "0 < b"
  shows "(vlength v * c < b) = ((vx v * vx v + vy v * vy v + vz v * vz v) * (c * c) < b * b)"
proof -
  have "(vlength v * c < b) = (vlength v < b / c)"
    using assms by (simp add: pos_less_divide_eq)
  also have "\<dots> = (vx v * vx v + vy v * vy v + vz v * vz v < (b / c) * (b / c))"
    using assms by (simp add: vlength_less_iff del: less_divide_eq_numeral1)
  also have "\<dots> = ((vx v * vx v + vy v * vy v + vz v * vz v) * (c * c) < b * b)"
    using assms by (simp add: field_simps)
  finally show ?thesis .
qed

lemma vlength_times_gt_iff:
  assumes "0 < c" "0 \<le> b"
  shows "(b < vlength v * c) = (b * b < (vx v * vx v + vy v * vy v + vz v * vz v) * (c * c))"
proof -
  have "(b < vlength v * c) = (b / c < vlength v)"
    using assms by (simp add: pos_divide_less_eq)
  also have "\<dots> = ((b / c) * (b / c) < vx v * vx v + vy v * vy v + vz v * vz v)"
    using assms by (simp add: vlength_gt_iff del: divide_less_eq_numeral1)
  also have "\<dots> = (b * b < (vx v * vx v + vy v * vy v + vz v * vz v) * (c * c))"
    using assms by (simp add: field_simps)
  finally show ?thesis .
qed

lemma vlength_le_iff:
  "0 \<le> b \<Longrightarrow> (vlength v \<le> b) = (vx v * vx v + vy v * vy v + vz v * vz v \<le> b * b)"
  using vlength_gt_iff [of b v] by (simp add: not_less [symmetric] del: not_less)

lemma vlength_ge_iff:
  "0 < b \<Longrightarrow> (b \<le> vlength v) = (b * b \<le> vx v * vx v + vy v * vy v + vz v * vz v)"
  using vlength_less_iff [of b v] by (simp add: not_less [symmetric] del: not_less)

lemma vlength_times_le_iff:
  "0 < c \<Longrightarrow> 0 \<le> b \<Longrightarrow>
     (vlength v * c \<le> b) = ((vx v * vx v + vy v * vy v + vz v * vz v) * (c * c) \<le> b * b)"
  using vlength_times_gt_iff [of c b v] by (simp add: not_less [symmetric] del: not_less)

lemma vlength_times_ge_iff:
  "0 < c \<Longrightarrow> 0 < b \<Longrightarrow>
     (b \<le> vlength v * c) = (b * b \<le> (vx v * vx v + vy v * vy v + vz v * vz v) * (c * c))"
  using vlength_times_less_iff [of c b v] by (simp add: not_less [symmetric] del: not_less)

lemmas vlength_cmp = vlength_less_iff vlength_gt_iff vlength_le_iff vlength_ge_iff
  vlength_times_less_iff vlength_times_gt_iff vlength_times_le_iff vlength_times_ge_iff

lemma object3_stage_engine:
  "object3_stage r (f, engine c s) =
     (fst (object3_stage r (f, s)), engine c (snd (object3_stage r (f, s))))"
  by (simp add: object3_stage_def object3_radiusSum_def engine_def Let_def)

lemma object2_contact_engine:
  "object2_contact r (f, engine c s) =
     (fst (object2_contact r (f, s)), engine c (snd (object2_contact r (f, s))))"
  by (simp add: object2_contact_def engine_def Let_def)

lemma object3_stage_calls: "calls (snd (object3_stage r fs)) = calls (snd fs)"
  by (simp add: object3_stage_def Let_def split_def)

lemma object2_contact_calls: "calls (snd (object2_contact r fs)) = calls (snd fs)"
  by (simp add: object2_contact_def Let_def split_def)

lemma object2_advance_calls:
  "calls (object2_advance s) =
     calls s @ [SetLocalPos Object2 (vadd (object2LocalPos s) (vmul (object2Vel s) timeStep))]"
  by (simp add: object2_advance_def setLocalPos_def engine_def Let_def)

lemma object2_bound_calls:
  "calls (object2_bound s) =
     calls s @ (if vlength (vsub (object2LocalPos s) object2StartPos) > 1
                then [SetLocalPos Object2 object2StartPos] else [])"
  by (simp add: object2_bound_def setLocalPos_def engine_def)

lemma object2_stage_fst: "fst (object2_stage r fs) = fst (object2_contact r fs)"
  by (simp add: object2_stage_def split_def Let_def)

lemma object2_stage_snd:
  "snd (object2_stage r fs) = object2_bound (object2_advance (snd (object2_contact r fs)))"
  by (simp add: object2_stage_def split_def Let_def)

lemma haptics_iteration_unfold:
  "haptics_iteration r s =
    engine SignalHaptics (engine ApplyToDevice
      (engine (SetDeviceGlobalForce
          (fst (object2_stage r (object3_stage r (object0_stage r (deviceGlobalForce r),
             engine ComputeInteractionForces (engine UpdateFromDevice (engine ComputeGlobalPositions s)))))))
        (snd (object2_stage r (object3_stage r (object0_stage r (deviceGlobalForce r),
             engine ComputeInteractionForces (engine UpdateFromDevice (engine ComputeGlobalPositions s))))))))"
  by (simp add: haptics_iteration_def split_def Let_def)

lemma stage_force_engine:
  "fst (object2_stage r (object3_stage r (f, engine c s))) =
   fst (object2_stage r (object3_stage r (f, s)))"
  by (simp add: object3_stage_engine object2_stage_fst object2_contact_engine)

lemma iteration_calls:
  "\<exists>moves. calls (haptics_iteration r s) =
       calls s @ [ComputeGlobalPositions, UpdateFromDevice, ComputeInteractionForces] @ moves @
       [SetDeviceGlobalForce
          (fst (object2_stage r (object3_stage r (object0_stage r (deviceGlobalForce r), s)))),
        ApplyToDevice, SignalHaptics] \<and>
     (\<forall>c \<in> set moves. \<exists>p. c = SetLocalPos Object2 p)"
proof -
  let ?s0 = "engine ComputeInteractionForces (engine UpdateFromDevice (engine ComputeGlobalPositions s))"
  let ?f0 = "object0_stage r (deviceGlobalForce r)"
  let ?s3 = "snd (object3_stage r (?f0, ?s0))"
  let ?f3 = "fst (object3_stage r (?f0, ?s0))"
  let ?s2 = "snd (object2_contact r (?f3, ?s3))"
  let ?m1 = "SetLocalPos Object2 (vadd (object2LocalPos ?s2) (vmul (object2Vel ?s2) timeStep))"
  let ?m2 = "if vlength (vsub (object2LocalPos (object2_advance ?s2)) object2StartPos) > 1
                then [SetLocalPos Object2 object2StartPos] else []"
  have F: "fst (object2_stage r (object3_stage r (?f0, ?s0))) =
           fst (object2_stage r (object3_stage r (?f0, s)))"
    by (simp only: stage_force_engine)
  have "calls (snd (object2_stage r (object3_stage r (?f0, ?s0)))) =
        calls ?s0 @ ?m1 # ?m2"
    by (simp add: object2_stage_snd object2_bound_calls object2_advance_calls
        object2_contact_calls object3_stage_calls)
  then have "calls (haptics_iteration r s) =
       calls s @ [ComputeGlobalPositions, UpdateFromDevice, ComputeInteractionForces] @ (?m1 # ?m2) @
       [SetDeviceGlobalForce
          (fst (object2_stage r (object3_stage r (?f0, s)))),
        ApplyToDevice, SignalHaptics]"
    unfolding haptics_iteration_unfold F by (simp add: engine_def)
  moreover have "\<forall>c \<in> set (?m1 # ?m2). \<exists>p. c = SetLocalPos Object2 p"
    by simp
  ultimately show ?thesis by blast
qed

lemma object0_outside:
  "\<not> vlength (vsub (globalPos r Object0) (deviceGlobalPos r)) < 0.05 + radius r Object0
     \<Longrightarrow> object0_stage r f = f"
  by (simp add: object0_stage_def object0_radiusSum_def Let_def)

lemma object3_outside:
  "\<not> vlength (vsub (globalPos r Object3) (deviceGlobalPos r)) < object3_radiusSum r s
     \<Longrightarrow> fst (object3_stage r (f, s)) = f"
  by (simp add: object3_stage_def Let_def)

lemma object2_outside:
  "\<not> vlength (vsub (globalPos r Object2) (deviceGlobalPos r)) < 0.03 + radius r Object2
     \<Longrightarrow> fst (object2_stage r (f, s)) = f"
  by (simp add: object2_stage_fst object2_contact_def object2_radiusSum_def Let_def)

lemma engine_fields [simp]:
  "inLoop (engine c s) = inLoop s"
  "oscTime3 (engine c s) = oscTime3 s"
  "object2Vel (engine c s) = object2Vel s"
  "object2LocalPos (engine c s) = object2LocalPos s"
  "simulationRunning (engine c s) = simulationRunning s"
  by (simp_all add: engine_def)

lemma object3_stage_fields:
  "object2Vel (snd (object3_stage r fs)) = object2Vel (snd fs)"
  "object2LocalPos (snd (object3_stage r fs)) = object2LocalPos (snd fs)"
  "inLoop (snd (object3_stage r fs)) =
     (vlength (vsub (globalPos r Object3) (deviceGlobalPos r)) < object3_radiusSum r (snd fs))"
  "oscTime3 (snd (object3_stage r fs)) =
     (if vlength (vsub (globalPos r Object3) (deviceGlobalPos r)) < object3_radiusSum r (snd fs)
      then oscTime3 (snd fs) + timeStep else 0)"
  by (simp_all add: object3_stage_def Let_def split_def)

lemma object2_contact_fields:
  "object2LocalPos (snd (object2_contact r fs)) = object2LocalPos (snd fs)"
  "inLoop (snd (object2_contact r fs)) = inLoop (snd fs)"
  "oscTime3 (snd (object2_contact r fs)) = oscTime3 (snd fs)"
  "object2Vel (snd (object2_contact r fs)) =
     (if vlength (vsub (globalPos r Object2) (deviceGlobalPos r)) < 0.03 + radius r Object2
      then vadd (object2Vel (snd fs))
             (vmul (vdiv (vsub (vneg (fst fs)) (smul damping (object2Vel (snd fs)))) mass) timeStep)
      else object2Vel (snd fs))"
  "fst (object2_contact r fs) =
     (if vlength (vsub (globalPos r Object2) (deviceGlobalPos r)) < 0.03 + radius r Object2
      then vmul (fst fs) 10 else fst fs)"
  by (simp_all add: object2_contact_def object2_radiusSum_def Let_def split_def)

lemma object2_advance_fields:
  "object2LocalPos (object2_advance s) = vadd (object2LocalPos s) (vmul (object2Vel s) timeStep)"
  "object2Vel (object2_advance s) = vmul (object2Vel s) 0.999"
  "inLoop (object2_advance s) = inLoop s"
  "oscTime3 (object2_advance s) = oscTime3 s"
  by (simp_all add: object2_advance_def setLocalPos_def engine_def Let_def)

lemma object2_bound_fields:
  "object2LocalPos (object2_bound s) =
     (if 1 < vlength (vsub (object2LocalPos s) object2StartPos) then object2StartPos
      else object2LocalPos s)"
  "object2Vel (object2_bound s) =
     (if 1 < vlength (vsub (object2LocalPos s) object2StartPos) then Vec3 0 0 0
      else object2Vel s)"
  "inLoop (object2_bound s) = inLoop s"
  "oscTime3 (object2_bound s) = oscTime3 s"
  by (simp_all add: object2_bound_def setLocalPos_def engine_def)

lemma object3_radiusSum_engine [simp]: "object3_radiusSum r (engine c s) = object3_radiusSum r s"
  by (simp add: object3_radiusSum_def)

lemma iteration_inLoop:
  "inLoop (haptics_iteration r s) =
     (vlength (vsub (globalPos r Object3) (deviceGlobalPos r)) < object3_radiusSum r s)"
  by (simp add: haptics_iteration_unfold object2_stage_snd object2_bound_fields
      object2_advance_fields object2_contact_fields object3_stage_fields)

lemma iteration_oscTime3:
  "oscTime3 (haptics_iteration r s) =
     (if vlength (vsub (globalPos r Object3) (deviceGlobalPos r)) < object3_radiusSum r s
      then oscTime3 s + timeStep else 0)"
  by (simp add: haptics_iteration_unfold object2_stage_snd object2_bound_fields
      object2_advance_fields object2_contact_fields object3_stage_fields)

lemma object2_stage_engine_fields:
  "object2LocalPos (snd (object2_stage r (f, engine c s))) =
     object2LocalPos (snd (object2_stage r (f, s)))"
  "object2Vel (snd (object2_stage r (f, engine c s))) =
     object2Vel (snd (object2_stage r (f, s)))"
  by (simp_all add: object2_stage_snd object2_bound_fields object2_advance_fields
      object2_contact_fields)

lemma iteration_object2:
  "object2LocalPos (haptics_iteration r s) =
     object2LocalPos (snd (object2_stage r (object3_stage r (object0_stage r (deviceGlobalForce r), s))))"
  "object2Vel (haptics_iteration r s) =
     object2Vel (snd (object2_stage r (object3_stage r (object0_stage r (deviceGlobalForce r), s))))"
  by (simp_all add: haptics_iteration_unfold object3_stage_engine object2_stage_engine_fields)

lemma object2_bound_le: "vlength (vsub (object2LocalPos (object2_bound s)) object2StartPos) \<le> 1"
  by (simp add: object2_bound_fields)

lemma object0_stage_inside:
  "vlength (vsub (globalPos r Object0) (deviceGlobalPos r)) < 0.05 + radius r Object0
     \<Longrightarrow> object0_stage r f = vmul (vadd f (smul 0.1 (deviceGlobalLinVel r))) 4"
  by (simp add: object0_stage_def object0_radiusSum_def Let_def)

text \<open>The facts that evaluate an iteration at concrete readings.\<close>

lemmas iteration_eval = haptics_iteration_unfold object2_stage_fst object2_stage_snd object3_stage_def object0_stage_def
  object2_contact_def object2_advance_def object2_bound_def setLocalPos_def engine_def
  object0_radiusSum_def object3_radiusSum_def object2_radiusSum_def
  demo_readings_def loop_entry_def vec_defs const_defs vlength_cmp Let_def

text \<open>
  The loop itself: an iteration leaves the flag alone, so the loop returns as soon as an
  observation finds the flag cleared, and \<open>renderHaptics\<close> then reports that it has
  finished.
\<close>

lemma haptics_iteration_running [simp]:
  "simulationRunning (haptics_iteration r s) = simulationRunning s"
proof -
  have adv: "simulationRunning (object2_advance t) = simulationRunning t" for t
    by (simp add: object2_advance_def setLocalPos_def engine_def Let_def)
  have bnd: "simulationRunning (object2_bound t) = simulationRunning t" for t
    by (simp add: object2_bound_def setLocalPos_def engine_def)
  have con: "simulationRunning (snd (object2_contact r fs)) = simulationRunning (snd fs)" for fs
    by (simp add: object2_contact_def Let_def split_def)
  have st3: "simulationRunning (snd (object3_stage r fs)) = simulationRunning (snd fs)" for fs
    by (simp add: object3_stage_def Let_def split_def)
  show ?thesis
    by (simp add: haptics_iteration_unfold object2_stage_snd adv bnd con st3)
qed

lemma haptics_iteration_finished [simp]:
  "simulationFinished (haptics_iteration r s) = simulationFinished s"
proof -
  have adv: "simulationFinished (object2_advance t) = simulationFinished t" for t
    by (simp add: object2_advance_def setLocalPos_def engine_def Let_def)
  have bnd: "simulationFinished (object2_bound t) = simulationFinished t" for t
    by (simp add: object2_bound_def setLocalPos_def engine_def)
  have con: "simulationFinished (snd (object2_contact r fs)) = simulationFinished (snd fs)" for fs
    by (simp add: object2_contact_def Let_def split_def)
  have st3: "simulationFinished (snd (object3_stage r fs)) = simulationFinished (snd fs)" for fs
    by (simp add: object3_stage_def Let_def split_def)
  show ?thesis
    by (simp add: haptics_iteration_unfold object2_stage_snd adv bnd con st3 engine_def)
qed

lemma haptics_loop_returns:
  "\<exists>r. (True, r) \<in> set obs \<Longrightarrow> \<exists>s'. haptics_loop obs s = Some s' \<and> \<not> simulationRunning s'"
proof (induction obs arbitrary: s)
  case Nil
  then show ?case by simp
next
  case (Cons ob obs)
  obtain cleared r where ob: "ob = (cleared, r)"
    by (cases ob) auto
  show ?case
  proof (cases "cleared \<or> \<not> simulationRunning s")
    case True
    then show ?thesis by (auto simp add: ob)
  next
    case False
    then have "\<exists>r. (True, r) \<in> set obs"
      using Cons.prems ob by auto
    then have "\<exists>s'. haptics_loop obs (haptics_iteration r s) = Some s' \<and> \<not> simulationRunning s'"
      by (rule Cons.IH)
    then show ?thesis
      using False by (simp add: ob)
  qed
qed

lemma renderHaptics_returns:
  "\<exists>r. (True, r) \<in> set obs \<Longrightarrow>
     \<exists>s'. renderHaptics obs s = Some s' \<and> simulationFinished s' \<and> \<not> simulationRunning s'"
proof -
  assume "\<exists>r. (True, r) \<in> set obs"
  then obtain s' where
    "haptics_loop obs (s\<lparr>simulationRunning := True, simulationFinished := False,
        oscTime0 := 0.0, oscTime3 := 0.0, object2Vel := Vec3 0.0 0.0 0.0\<rparr>) = Some s'"
    "\<not> simulationRunning s'"
    using haptics_loop_returns by blast
  then show ?thesis
    by (simp add: renderHaptics_def)
qed

subsection \<open>The order of one iteration\<close>

text \<open>
  Claim C1.  One iteration of the loop body first asks the engine for the global
  positions, the device state and the interaction forces, in that order; the force it
  hands to the device is the engine's interaction force passed through the stage of
  \<open>object0\<close>, then the stage of \<open>object3\<close>, then the stage of \<open>object2\<close>; a stage
  whose distance test fails (the Euclidean distance between the sphere's global position
  and the device position is not below the stage's radius sum) returns the force it was
  given; and the iteration ends with exactly one \<open>setDeviceGlobalForce\<close> followed by
  one \<open>applyToDevice\<close> and the signal to the frequency counter, with nothing but the
  position updates of \<open>object2\<close> between the engine's computation and the send.  The
  loop runs this body whenever it finds \<open>simulationRunning\<close> set.
\<close>

theorem haptics_iteration_order:
  "(\<exists>moves. calls (haptics_iteration r s) =
       calls s @ [ComputeGlobalPositions, UpdateFromDevice, ComputeInteractionForces] @ moves @
       [SetDeviceGlobalForce
          (fst (object2_stage r (object3_stage r (object0_stage r (deviceGlobalForce r), s)))),
        ApplyToDevice, SignalHaptics] \<and>
     (\<forall>c \<in> set moves. \<exists>p. c = SetLocalPos Object2 p)) \<and>
   (\<not> vlength (vsub (globalPos r Object0) (deviceGlobalPos r)) < 0.05 + radius r Object0
      \<longrightarrow> object0_stage r f = f) \<and>
   (\<not> vlength (vsub (globalPos r Object3) (deviceGlobalPos r)) < object3_radiusSum r s
      \<longrightarrow> fst (object3_stage r (f, s)) = f) \<and>
   (\<not> vlength (vsub (globalPos r Object2) (deviceGlobalPos r)) < 0.03 + radius r Object2
      \<longrightarrow> fst (object2_stage r (f, s)) = f) \<and>
   (simulationRunning s \<longrightarrow>
      haptics_loop ((False, r) # obs) s = haptics_loop obs (haptics_iteration r s))"
  using iteration_calls [of r s] object0_outside [of r f] object3_outside [of r s f]
    object2_outside [of r f s]
  by simp

theorem haptics_iteration_order_witness:
  "\<not> vlength (vsub (globalPos (demo_readings (Vec3 3 0 0) (Vec3 1 2 3) (Vec3 1 0 0)) Object0) (Vec3 3 0 0))
       < 0.05 + 0.5 \<and>
   \<not> vlength (vsub (globalPos (demo_readings (Vec3 3 0 0) (Vec3 1 2 3) (Vec3 1 0 0)) Object3) (Vec3 3 0 0))
       < 0.05 + 0.5 \<and>
   \<not> vlength (vsub (globalPos (demo_readings (Vec3 3 0 0) (Vec3 1 2 3) (Vec3 1 0 0)) Object2) (Vec3 3 0 0))
       < 0.03 + 0.3 \<and>
   simulationRunning loop_entry \<and>
   calls (haptics_iteration (demo_readings (Vec3 3 0 0) (Vec3 1 2 3) (Vec3 1 0 0)) loop_entry) =
     [ComputeGlobalPositions, UpdateFromDevice, ComputeInteractionForces,
      SetLocalPos Object2 (Vec3 0 1 0), SetDeviceGlobalForce (Vec3 1 2 3),
      ApplyToDevice, SignalHaptics] \<and>
   object0_stage (demo_readings (Vec3 3 0 0) (Vec3 1 2 3) (Vec3 1 0 0)) (Vec3 1 2 3) = Vec3 1 2 3 \<and>
   haptics_loop [(False, demo_readings (Vec3 3 0 0) (Vec3 1 2 3) (Vec3 1 0 0))] loop_entry = None"
  using haptics_iteration_order [of "demo_readings (Vec3 3 0 0) (Vec3 1 2 3) (Vec3 1 0 0)"
      loop_entry "Vec3 1 2 3" "[]"]
  by (simp add: iteration_eval)

subsection \<open>The bound on \<open>object2\<close>\<close>

text \<open>
  Claim C9.  When an iteration of the loop body ends, the local position of \<open>object2\<close>
  is within distance 1.0 of its start position \<open>(0, 1, 0)\<close>; and when the position
  update of that iteration (old position plus velocity times the time step, the velocity
  being the one after the contact step) lands farther than 1.0 from the start, the
  iteration ends with the position at the start and the velocity zero.
\<close>

theorem object2_stays_near_start:
  "vlength (vsub (object2LocalPos (haptics_iteration r s)) object2StartPos) \<le> 1.0 \<and>
   (1.0 < vlength (vsub
            (vadd (object2LocalPos s)
               (vmul (object2Vel (snd (object2_contact r
                        (object3_stage r (object0_stage r (deviceGlobalForce r), s))))) timeStep))
            object2StartPos)
     \<longrightarrow> object2LocalPos (haptics_iteration r s) = object2StartPos \<and>
          object2Vel (haptics_iteration r s) = Vec3 0 0 0)"
  by (simp add: iteration_object2 object2_stage_snd object2_bound_fields object2_advance_fields
      object2_contact_fields(1) object3_stage_fields(2))

theorem object2_stays_near_start_witness:
  "1.0 < vlength (vsub
            (vadd (object2LocalPos (loop_entry\<lparr>object2Vel := Vec3 2000 0 0\<rparr>))
               (vmul (object2Vel (snd (object2_contact (demo_readings (Vec3 3 0 0) (Vec3 1 2 3) (Vec3 1 0 0))
                        (object3_stage (demo_readings (Vec3 3 0 0) (Vec3 1 2 3) (Vec3 1 0 0))
                           (object0_stage (demo_readings (Vec3 3 0 0) (Vec3 1 2 3) (Vec3 1 0 0))
                              (deviceGlobalForce (demo_readings (Vec3 3 0 0) (Vec3 1 2 3) (Vec3 1 0 0))),
                            loop_entry\<lparr>object2Vel := Vec3 2000 0 0\<rparr>))))) timeStep))
            object2StartPos) \<and>
   object2LocalPos (haptics_iteration (demo_readings (Vec3 3 0 0) (Vec3 1 2 3) (Vec3 1 0 0))
       (loop_entry\<lparr>object2Vel := Vec3 2000 0 0\<rparr>)) = Vec3 0 1 0 \<and>
   object2Vel (haptics_iteration (demo_readings (Vec3 3 0 0) (Vec3 1 2 3) (Vec3 1 0 0))
       (loop_entry\<lparr>object2Vel := Vec3 2000 0 0\<rparr>)) = Vec3 0 0 0"
  using object2_stays_near_start [of "demo_readings (Vec3 3 0 0) (Vec3 1 2 3) (Vec3 1 0 0)"
      "loop_entry\<lparr>object2Vel := Vec3 2000 0 0\<rparr>"]
  by (simp add: iteration_eval)

subsection \<open>The hysteresis of the \<open>object3\<close> stage\<close>

text \<open>
  Claim C8.  The threshold of the \<open>object3\<close> stage is 0.05 plus twice the radius when
  \<open>inLoop\<close> is set and 0.05 plus the radius otherwise, and an iteration leaves
  \<open>inLoop\<close> set exactly when its distance was below that threshold, so the flag says
  whether the previous iteration was inside.  Hence a tool that is inside leaves only at
  a distance of at least 0.05 plus twice the radius, which is beyond the entry distance,
  and then the timer is reset; at a distance between the two thresholds the stage stays
  as it was: inside with the timer advanced, or outside with the timer at zero.
\<close>

theorem object3_threshold_hysteresis:
  "object3_radiusSum r s =
     (if inLoop s then 0.05 + 2 * radius r Object3 else 0.05 + radius r Object3) \<and>
   inLoop (haptics_iteration r s) =
     (vlength (vsub (globalPos r Object3) (deviceGlobalPos r)) < object3_radiusSum r s) \<and>
   (0 < radius r Object3 \<and> inLoop s \<and> \<not> inLoop (haptics_iteration r s)
      \<longrightarrow> 0.05 + radius r Object3 < vlength (vsub (globalPos r Object3) (deviceGlobalPos r)) \<and>
           0.05 + 2 * radius r Object3 \<le> vlength (vsub (globalPos r Object3) (deviceGlobalPos r)) \<and>
           oscTime3 (haptics_iteration r s) = 0) \<and>
   (0.05 + radius r Object3 \<le> vlength (vsub (globalPos r Object3) (deviceGlobalPos r)) \<and>
    vlength (vsub (globalPos r Object3) (deviceGlobalPos r)) < 0.05 + 2 * radius r Object3
      \<longrightarrow> inLoop (haptics_iteration r s) = inLoop s \<and>
           oscTime3 (haptics_iteration r s) = (if inLoop s then oscTime3 s + timeStep else 0))"
  by (auto simp add: iteration_inLoop iteration_oscTime3 object3_radiusSum_def)

theorem object3_threshold_hysteresis_witness:
  "(0 < radius (demo_readings (Vec3 3 0 0) (Vec3 0 0 0) (Vec3 0 0 0)) Object3 \<and>
    inLoop (loop_entry\<lparr>inLoop := True, oscTime3 := 0.005\<rparr>) \<and>
    \<not> inLoop (haptics_iteration (demo_readings (Vec3 3 0 0) (Vec3 0 0 0) (Vec3 0 0 0))
           (loop_entry\<lparr>inLoop := True, oscTime3 := 0.005\<rparr>)) \<and>
    oscTime3 (haptics_iteration (demo_readings (Vec3 3 0 0) (Vec3 0 0 0) (Vec3 0 0 0))
           (loop_entry\<lparr>inLoop := True, oscTime3 := 0.005\<rparr>)) = 0) \<and>
   (0.05 + 0.5 \<le> vlength (vsub (globalPos (demo_readings (Vec3 0.8 0 0) (Vec3 0 0 0) (Vec3 0 0 0)) Object3)
                        (Vec3 0.8 0 0)) \<and>
    vlength (vsub (globalPos (demo_readings (Vec3 0.8 0 0) (Vec3 0 0 0) (Vec3 0 0 0)) Object3)
                        (Vec3 0.8 0 0)) < 0.05 + 2 * 0.5 \<and>
    inLoop (haptics_iteration (demo_readings (Vec3 0.8 0 0) (Vec3 0 0 0) (Vec3 0 0 0))
           (loop_entry\<lparr>inLoop := True, oscTime3 := 0.005\<rparr>)) \<and>
    oscTime3 (haptics_iteration (demo_readings (Vec3 0.8 0 0) (Vec3 0 0 0) (Vec3 0 0 0))
           (loop_entry\<lparr>inLoop := True, oscTime3 := 0.005\<rparr>)) = 0.006 \<and>
    \<not> inLoop (haptics_iteration (demo_readings (Vec3 0.8 0 0) (Vec3 0 0 0) (Vec3 0 0 0)) loop_entry) \<and>
    oscTime3 (haptics_iteration (demo_readings (Vec3 0.8 0 0) (Vec3 0 0 0) (Vec3 0 0 0)) loop_entry) = 0)"
  using object3_threshold_hysteresis [of "demo_readings (Vec3 3 0 0) (Vec3 0 0 0) (Vec3 0 0 0)"
        "loop_entry\<lparr>inLoop := True, oscTime3 := 0.005\<rparr>"]
      object3_threshold_hysteresis [of "demo_readings (Vec3 0.8 0 0) (Vec3 0 0 0) (Vec3 0 0 0)"
        "loop_entry\<lparr>inLoop := True, oscTime3 := 0.005\<rparr>"]
      object3_threshold_hysteresis [of "demo_readings (Vec3 0.8 0 0) (Vec3 0 0 0) (Vec3 0 0 0)"
        loop_entry]
  by (simp add: iteration_eval)

subsection \<open>The dynamics of \<open>object2\<close>\<close>

text \<open>
  Claim C4.  In the \<open>object2\<close> stage, when the distance from the tool to the global
  position of \<open>object2\<close> is below 0.03 plus its radius, the velocity of \<open>object2\<close> grows
  by \<open>((-baseForce - damping * velocity) / mass) * dt\<close> with mass 0.5, damping 0 and
  \<open>dt\<close> 0.001, and the force is multiplied by 10; otherwise force and velocity stay.
  In either case the local position then advances by velocity times \<open>dt\<close> and the
  velocity is scaled by 0.999 (after which the stage applies its bound).  The position
  and velocity an iteration ends with are those this stage returns, and the \<open>object3\<close>
  stage before it touches neither.
\<close>

theorem object2_stage_dynamics:
  "(let inside = (vlength (vsub (globalPos r Object2) (deviceGlobalPos r)) < 0.03 + radius r Object2);
        v1 = (if inside
              then vadd (object2Vel s)
                     (vmul (vdiv (vsub (vneg F) (smul 0 (object2Vel s))) 0.5) 0.001)
              else object2Vel s);
        p1 = vadd (object2LocalPos s) (vmul v1 0.001);
        s1 = snd (object2_contact r (F, s));
        s2 = object2_advance s1
    in fst (object2_stage r (F, s)) = (if inside then vmul F 10 else F) \<and>
       object2Vel s1 = v1 \<and> object2LocalPos s1 = object2LocalPos s \<and>
       object2LocalPos s2 = p1 \<and> object2Vel s2 = vmul v1 0.999 \<and>
       snd (object2_stage r (F, s)) = object2_bound s2 \<and>
       object2LocalPos (snd (object2_stage r (F, s))) =
         (if 1 < vlength (vsub p1 object2StartPos) then object2StartPos else p1) \<and>
       object2Vel (snd (object2_stage r (F, s))) =
         (if 1 < vlength (vsub p1 object2StartPos) then Vec3 0 0 0 else vmul v1 0.999)) \<and>
   object2LocalPos (haptics_iteration r s) =
     object2LocalPos (snd (object2_stage r (object3_stage r (object0_stage r (deviceGlobalForce r), s)))) \<and>
   object2Vel (haptics_iteration r s) =
     object2Vel (snd (object2_stage r (object3_stage r (object0_stage r (deviceGlobalForce r), s)))) \<and>
   object2LocalPos (snd (object3_stage r (F, s))) = object2LocalPos s \<and>
   object2Vel (snd (object3_stage r (F, s))) = object2Vel s"
  by (simp add: Let_def iteration_object2 object2_stage_fst object2_stage_snd object2_bound_fields
      object2_advance_fields object2_contact_fields object3_stage_fields
      timeStep_def mass_def damping_def)

theorem object2_stage_dynamics_witness:
  "vlength (vsub (globalPos (demo_readings (Vec3 0 1 0) (Vec3 0 0 0) (Vec3 0 0 0)) Object2) (Vec3 0 1 0))
     < 0.03 + 0.3 \<and>
   fst (object2_stage (demo_readings (Vec3 0 1 0) (Vec3 0 0 0) (Vec3 0 0 0)) (Vec3 1 2 3, loop_entry))
     = Vec3 10 20 30 \<and>
   object2Vel (snd (object2_contact (demo_readings (Vec3 0 1 0) (Vec3 0 0 0) (Vec3 0 0 0))
       (Vec3 1 2 3, loop_entry))) = Vec3 (- 0.002) (- 0.004) (- 0.006) \<and>
   object2LocalPos (snd (object2_stage (demo_readings (Vec3 0 1 0) (Vec3 0 0 0) (Vec3 0 0 0))
       (Vec3 1 2 3, loop_entry))) = Vec3 (- 0.000002) 0.999996 (- 0.000006) \<and>
   object2Vel (snd (object2_stage (demo_readings (Vec3 0 1 0) (Vec3 0 0 0) (Vec3 0 0 0))
       (Vec3 1 2 3, loop_entry))) = Vec3 (- 0.001998) (- 0.003996) (- 0.005994) \<and>
   \<not> vlength (vsub (globalPos (demo_readings (Vec3 3 0 0) (Vec3 0 0 0) (Vec3 0 0 0)) Object2) (Vec3 3 0 0))
     < 0.03 + 0.3 \<and>
   fst (object2_stage (demo_readings (Vec3 3 0 0) (Vec3 0 0 0) (Vec3 0 0 0))
       (Vec3 1 2 3, loop_entry\<lparr>object2Vel := Vec3 1 0 0\<rparr>)) = Vec3 1 2 3 \<and>
   object2LocalPos (snd (object2_stage (demo_readings (Vec3 3 0 0) (Vec3 0 0 0) (Vec3 0 0 0))
       (Vec3 1 2 3, loop_entry\<lparr>object2Vel := Vec3 1 0 0\<rparr>))) = Vec3 0.001 1 0 \<and>
   object2Vel (snd (object2_stage (demo_readings (Vec3 3 0 0) (Vec3 0 0 0) (Vec3 0 0 0))
       (Vec3 1 2 3, loop_entry\<lparr>object2Vel := Vec3 1 0 0\<rparr>))) = Vec3 0.999 0 0"
  using object2_stage_dynamics [of "demo_readings (Vec3 0 1 0) (Vec3 0 0 0) (Vec3 0 0 0)"
      loop_entry "Vec3 1 2 3"]
    object2_stage_dynamics [of "demo_readings (Vec3 3 0 0) (Vec3 0 0 0) (Vec3 0 0 0)"
      "loop_entry\<lparr>object2Vel := Vec3 1 0 0\<rparr>" "Vec3 1 2 3"]
  by (simp add: iteration_eval)

subsection \<open>The \<open>object0\<close> stage\<close>

text \<open>
  Claim C2, evaluated where it fails.  The tool is at the centre of \<open>object0\<close>, well
  inside the threshold, and moves with velocity \<open>(1, 0, 0)\<close>; the engine force is zero.
  The stage returns \<open>(0.4, 0, 0)\<close>, which is \<open>4 * (0.1 * velocity)\<close>: the force it
  blends in points along the velocity, not against it.
\<close>

theorem object0_stage_pushes_along_velocity:
  "vlength (vsub (globalPos (demo_readings (Vec3 0 (- 1.2) 0) (Vec3 0 0 0) (Vec3 1 0 0)) Object0)
      (deviceGlobalPos (demo_readings (Vec3 0 (- 1.2) 0) (Vec3 0 0 0) (Vec3 1 0 0))))
     < 0.05 + radius (demo_readings (Vec3 0 (- 1.2) 0) (Vec3 0 0 0) (Vec3 1 0 0)) Object0 \<and>
   object0_stage (demo_readings (Vec3 0 (- 1.2) 0) (Vec3 0 0 0) (Vec3 1 0 0)) (Vec3 0 0 0)
     = Vec3 0.4 0 0 \<and>
   0 < vdot (object0_stage (demo_readings (Vec3 0 (- 1.2) 0) (Vec3 0 0 0) (Vec3 1 0 0)) (Vec3 0 0 0))
         (deviceGlobalLinVel (demo_readings (Vec3 0 (- 1.2) 0) (Vec3 0 0 0) (Vec3 1 0 0)))"
  by (simp add: iteration_eval vdot_def)

subsection \<open>The oscillation of the \<open>object3\<close> stage\<close>

text \<open>
  The source writes \<open>\<pi>\<close> as the literal \<open>3.14159\<close>.  That is \<open>\<pi>\<close> to the five
  decimals given: the sine of \<open>3.14159 / 6\<close> is below one half and the sine of
  \<open>3.1416 / 6\<close> above it, by the Maclaurin polynomial of degree nine with its remainder.
\<close>

lemma sum_lessThan_11:
  "(\<Sum>m<11. f m) = f 0 + f 1 + f 2 + f 3 + f 4 + f 5 + f 6 + f 7 + f 8 + f 9 + f 10"
  for f :: "nat \<Rightarrow> real"
  by (simp add: eval_nat_numeral lessThan_Suc)

lemma sin_coeff_values:
  "sin_coeff (Suc 0) = 1" "sin_coeff 2 = 0" "sin_coeff 3 = - 1 / 6" "sin_coeff 4 = 0"
  "sin_coeff 5 = 1 / 120" "sin_coeff 6 = 0" "sin_coeff 7 = - 1 / 5040" "sin_coeff 8 = 0"
  "sin_coeff 9 = 1 / 362880" "sin_coeff 10 = 0"
  by (simp_all add: sin_coeff_def fact_numeral)

lemma sin_partial_sum:
  "(\<Sum>m<11. sin_coeff m * x ^ m) =
     x - x ^ 3 / 6 + x ^ 5 / 120 - x ^ 7 / 5040 + x ^ 9 / 362880" for x :: real
  unfolding sum_lessThan_11 by (simp add: sin_coeff_values)

lemma sin_upper:
  fixes x :: real
  assumes "0 \<le> x"
  shows "sin x \<le> x - x ^ 3 / 6 + x ^ 5 / 120 - x ^ 7 / 5040 + x ^ 9 / 362880 + x ^ 11 / 39916800"
proof -
  have "\<bar>sin x - (\<Sum>m<11. sin_coeff m * x ^ m)\<bar> \<le> inverse (fact 11) * \<bar>x\<bar> ^ 11"
    by (rule Maclaurin_sin_bound)
  moreover have f11: "fact 11 = (39916800 :: real)"
    by (simp add: fact_numeral)
  moreover have ax: "\<bar>x\<bar> = x"
    using assms by simp
  moreover have "inverse (fact 11) * \<bar>x\<bar> ^ 11 = inverse 39916800 * x ^ 11"
    by (simp only: f11 ax)
  moreover have "inverse 39916800 * x ^ 11 = x ^ 11 / 39916800"
    by (simp only: divide_inverse mult.commute)
  ultimately have "\<bar>sin x - (\<Sum>m<11. sin_coeff m * x ^ m)\<bar> \<le> x ^ 11 / 39916800"
    by (simp only:)
  then show ?thesis
    unfolding sin_partial_sum by linarith
qed

lemma sin_below_half: "sin (314159 / 600000 :: real) < 1 / 2"
proof -
  have "sin (314159 / 600000 :: real) \<le>
      (314159 / 600000) - (314159 / 600000) ^ 3 / 6 + (314159 / 600000) ^ 5 / 120
      - (314159 / 600000) ^ 7 / 5040 + (314159 / 600000) ^ 9 / 362880
      + (314159 / 600000) ^ 11 / 39916800"
    by (rule sin_upper) simp
  also have "\<dots> < 1 / 2"
    by (simp add: power_divide)
  finally show ?thesis .
qed

lemma pi_gt_314159: "3.14159 < pi"
proof (rule ccontr)
  assume "\<not> 3.14159 < pi"
  then have le: "pi / 6 \<le> 314159 / 600000" by simp
  have "2 \<le> pi" by (rule pi_ge_two)
  then have "sin (pi / 6) \<le> sin (314159 / 600000 :: real)"
    using le by (subst sin_mono_le_eq) simp_all
  then show False
    using sin_below_half by (simp add: sin_30)
qed

lemma sin_lower:
  fixes x :: real
  assumes "0 \<le> x"
  shows "x - x ^ 3 / 6 + x ^ 5 / 120 - x ^ 7 / 5040 + x ^ 9 / 362880 - x ^ 11 / 39916800 \<le> sin x"
proof -
  have "\<bar>sin x - (\<Sum>m<11. sin_coeff m * x ^ m)\<bar> \<le> inverse (fact 11) * \<bar>x\<bar> ^ 11"
    by (rule Maclaurin_sin_bound)
  moreover have f11: "fact 11 = (39916800 :: real)"
    by (simp add: fact_numeral)
  moreover have ax: "\<bar>x\<bar> = x"
    using assms by simp
  moreover have "inverse (fact 11) * \<bar>x\<bar> ^ 11 = inverse 39916800 * x ^ 11"
    by (simp only: f11 ax)
  moreover have "inverse 39916800 * x ^ 11 = x ^ 11 / 39916800"
    by (simp only: divide_inverse mult.commute)
  ultimately have "\<bar>sin x - (\<Sum>m<11. sin_coeff m * x ^ m)\<bar> \<le> x ^ 11 / 39916800"
    by (simp only:)
  then show ?thesis
    unfolding sin_partial_sum by linarith
qed

lemma sin_above_half: "1 / 2 < sin (31416 / 60000 :: real)"
proof -
  have "(1 / 2 :: real) <
      (31416 / 60000) - (31416 / 60000) ^ 3 / 6 + (31416 / 60000) ^ 5 / 120
      - (31416 / 60000) ^ 7 / 5040 + (31416 / 60000) ^ 9 / 362880
      - (31416 / 60000) ^ 11 / 39916800"
    by (simp add: power_divide)
  also have "\<dots> \<le> sin (31416 / 60000 :: real)"
    by (rule sin_lower) simp
  finally show ?thesis .
qed

lemma pi_less_31416: "pi < 3.1416"
proof (rule ccontr)
  assume "\<not> pi < 3.1416"
  then have le: "31416 / 60000 \<le> pi / 6" by simp
  have "2 \<le> pi" by (rule pi_ge_two)
  then have "sin (31416 / 60000 :: real) \<le> sin (pi / 6)"
    using le by (subst sin_mono_le_eq) simp_all
  then show False
    using sin_above_half by (simp add: sin_30)
qed

lemma source_pi_literal: "\<bar>pi - 3.14159\<bar> < 0.00001"
  using pi_gt_314159 pi_less_31416 by simp

text \<open>
  Claim C3.  In the \<open>object3\<close> stage, when the distance is below the stage's threshold
  the timer \<open>t\<close> advances by the time step 0.001 and the vector
  \<open>(-A cos(2 \<pi> f t), A sin(2 \<pi> f t), A cos(2 \<pi> f t))\<close> with \<open>A = 6\<close>, \<open>f = 6\<close> and
  \<open>t\<close> the advanced timer is added to the force, \<open>\<pi>\<close> being the program's
  \<open>3.14159\<close>; when it is not, the timer is reset to 0 and the force is returned as it
  came.  The timer an iteration ends with is the one this stage leaves.
\<close>

theorem object3_stage_oscillation:
  "(vlength (vsub (globalPos r Object3) (deviceGlobalPos r)) < object3_radiusSum r s \<longrightarrow>
      oscTime3 (snd (object3_stage r (F, s))) = oscTime3 s + 0.001 \<and>
      fst (object3_stage r (F, s)) =
        vadd F (Vec3 (- (6 * cos (2 * 3.14159 * 6 * (oscTime3 s + 0.001))))
                     (6 * sin (2 * 3.14159 * 6 * (oscTime3 s + 0.001)))
                     (6 * cos (2 * 3.14159 * 6 * (oscTime3 s + 0.001))))) \<and>
   (\<not> vlength (vsub (globalPos r Object3) (deviceGlobalPos r)) < object3_radiusSum r s \<longrightarrow>
      oscTime3 (snd (object3_stage r (F, s))) = 0 \<and>
      fst (object3_stage r (F, s)) = F) \<and>
   oscTime3 (haptics_iteration r s) =
     oscTime3 (snd (object3_stage r (object0_stage r (deviceGlobalForce r), s)))"
  by (simp add: object3_stage_def Let_def iteration_oscTime3 timeStep_def amp_def freq_def)

theorem object3_stage_oscillation_witness:
  "vlength (vsub (globalPos (demo_readings (Vec3 0 0 0) (Vec3 0 0 0) (Vec3 0 0 0)) Object3) (Vec3 0 0 0))
     < object3_radiusSum (demo_readings (Vec3 0 0 0) (Vec3 0 0 0) (Vec3 0 0 0))
         (loop_entry\<lparr>oscTime3 := 0.004\<rparr>) \<and>
   oscTime3 (snd (object3_stage (demo_readings (Vec3 0 0 0) (Vec3 0 0 0) (Vec3 0 0 0))
       (Vec3 1 2 3, loop_entry\<lparr>oscTime3 := 0.004\<rparr>))) = 0.005 \<and>
   fst (object3_stage (demo_readings (Vec3 0 0 0) (Vec3 0 0 0) (Vec3 0 0 0))
       (Vec3 1 2 3, loop_entry\<lparr>oscTime3 := 0.004\<rparr>)) =
     Vec3 (1 - 6 * cos (2 * 3.14159 * 6 * 0.005)) (2 + 6 * sin (2 * 3.14159 * 6 * 0.005))
          (3 + 6 * cos (2 * 3.14159 * 6 * 0.005)) \<and>
   \<not> vlength (vsub (globalPos (demo_readings (Vec3 3 0 0) (Vec3 0 0 0) (Vec3 0 0 0)) Object3) (Vec3 3 0 0))
     < object3_radiusSum (demo_readings (Vec3 3 0 0) (Vec3 0 0 0) (Vec3 0 0 0))
         (loop_entry\<lparr>oscTime3 := 0.004\<rparr>) \<and>
   oscTime3 (snd (object3_stage (demo_readings (Vec3 3 0 0) (Vec3 0 0 0) (Vec3 0 0 0))
       (Vec3 1 2 3, loop_entry\<lparr>oscTime3 := 0.004\<rparr>))) = 0 \<and>
   fst (object3_stage (demo_readings (Vec3 3 0 0) (Vec3 0 0 0) (Vec3 0 0 0))
       (Vec3 1 2 3, loop_entry\<lparr>oscTime3 := 0.004\<rparr>)) = Vec3 1 2 3"
  using object3_stage_oscillation [of "demo_readings (Vec3 0 0 0) (Vec3 0 0 0) (Vec3 0 0 0)"
      "loop_entry\<lparr>oscTime3 := 0.004\<rparr>" "Vec3 1 2 3"]
    object3_stage_oscillation [of "demo_readings (Vec3 3 0 0) (Vec3 0 0 0) (Vec3 0 0 0)"
      "loop_entry\<lparr>oscTime3 := 0.004\<rparr>" "Vec3 1 2 3"]
  by (simp add: iteration_eval)

subsection \<open>The scene after \<open>main\<close>\<close>

lemmas scene_ops = addChild_def new_cShapeSphere_def on_sphere_def on_material_def
  setLocalPos_sphere_def createEffect_def setStiffness_def setViscosity_def
  setStickSlipForceMax_def setStickSlipStiffness_def setVibrationFrequency_def
  setVibrationAmplitude_def new_cWorld_def

lemma main_scene_children:
  "map_option children (main_scene info w) =
     Some [CameraNode, LightNode, ToolNode, SphereNode Object0, SphereNode Object2, SphereNode Object3]"
  by (simp add: main_scene_def scene_ops Let_def)

lemma main_scene_dom:
  "map_option (\<lambda>sc. dom (spheres sc)) (main_scene info w) = Some {Object0, Object1, Object2, Object3}"
  by (auto simp add: main_scene_def scene_ops Let_def)

lemma main_scene_sphere0:
  "sphere_of (main_scene info w) Object0 =
     Some \<lparr>m_radius = 0.5, m_localPos = Vec3 0 (- 1.2) 0, m_material = new_material,
           m_effects = [EffectSurface]\<rparr>"
  by (simp add: sphere_of_def main_scene_def scene_ops Let_def)

lemma main_scene_sphere1:
  "sphere_of (main_scene info w) Object1 =
     Some \<lparr>m_radius = 0.3, m_localPos = Vec3 0 0 0,
           m_material = new_material\<lparr>viscosity := Some (0.9 * (m_maxLinearDamping info / w))\<rparr>,
           m_effects = [EffectViscosity]\<rparr>"
  by (simp add: sphere_of_def main_scene_def scene_ops Let_def)

lemma main_scene_sphere2:
  "sphere_of (main_scene info w) Object2 =
     Some \<lparr>m_radius = 0.3, m_localPos = Vec3 0 1 0,
           m_material = new_material\<lparr>
             stickSlipForceMax := Some (0.2 * min (m_maxLinearForce info) 7.0),
             stickSlipStiffness := Some (0.6 * (m_maxLinearStiffness info / w))\<rparr>,
           m_effects = [EffectStickSlip]\<rparr>"
  by (simp add: sphere_of_def main_scene_def scene_ops Let_def)

lemma main_scene_sphere3:
  "sphere_of (main_scene info w) Object3 =
     Some \<lparr>m_radius = 0.5, m_localPos = Vec3 0 0 0,
           m_material = new_material\<lparr>
             stiffness := Some 0.1,
             vibrationFrequency := Some 60,
             vibrationAmplitude := Some (0.5 * min (m_maxLinearForce info) 7.0)\<rparr>,
           m_effects = [EffectVibration, EffectSurface, EffectViscosity]\<rparr>"
  by (simp add: sphere_of_def main_scene_def scene_ops Let_def)

text \<open>
  Claim C5 as stated fails: \<open>main\<close> constructs \<open>object1\<close>, but the call that would
  add it to the world is commented out (line 399), so it is not among the children of
  the world.
\<close>

theorem object1_not_added_to_world:
  "map_option children (main_scene demo_device 2) =
     Some [CameraNode, LightNode, ToolNode, SphereNode Object0, SphereNode Object2, SphereNode Object3] \<and>
   SphereNode Object1 \<notin>
     set [CameraNode, LightNode, ToolNode, SphereNode Object0, SphereNode Object2, SphereNode Object3] \<and>
   sphere_of (main_scene demo_device 2) Object1 \<noteq> None"
  by (simp add: main_scene_children main_scene_sphere1)

text \<open>
  Claim C5, amended.  \<open>main\<close> constructs the four spheres \<open>object0\<close> to \<open>object3\<close>
  and adds \<open>object0\<close>, \<open>object2\<close> and \<open>object3\<close> as children of the world, after the
  camera, the light and the tool and in that order; \<open>object1\<close> is constructed but not
  added, so the scene holds three of the four spheres.
\<close>

theorem main_scene_world_children:
  "\<exists>sc. main_scene info w = Some sc \<and>
     children sc =
       [CameraNode, LightNode, ToolNode, SphereNode Object0, SphereNode Object2, SphereNode Object3] \<and>
     dom (spheres sc) = {Object0, Object1, Object2, Object3} \<and>
     SphereNode Object0 \<in> set (children sc) \<and> SphereNode Object2 \<in> set (children sc) \<and>
     SphereNode Object3 \<in> set (children sc) \<and> SphereNode Object1 \<notin> set (children sc)"
  using main_scene_children [of info w] main_scene_dom [of info w] by auto

theorem main_scene_world_children_witness:
  "map_option children (main_scene demo_device 2) =
     Some [CameraNode, LightNode, ToolNode, SphereNode Object0, SphereNode Object2, SphereNode Object3]"
  using main_scene_world_children [of demo_device 2] by auto

text \<open>
  Claim C6 as stated fails in its last part.  The effects are the ones listed, but not
  each is parameterised from the limits of the device: \<open>object0\<close> has a surface
  effect and no material property set at all; for \<open>object3\<close> the stiffness (read by
  its surface effect) is the constant 0.1, the viscosity (read by its viscosity effect)
  is never set, and the vibration frequency is the constant 60.  Two devices that differ
  in all three limits give the same values.
\<close>

theorem effects_not_all_from_device_limits:
  "effects_of (main_scene demo_device 2) Object0 = Some [EffectSurface] \<and>
   material_of (main_scene demo_device 2) Object0 = Some new_material \<and>
   effects_of (main_scene demo_device 2) Object3 =
     Some [EffectVibration, EffectSurface, EffectViscosity] \<and>
   map_option stiffness (material_of (main_scene demo_device 2) Object3) = Some (Some 0.1) \<and>
   map_option stiffness (material_of (main_scene other_device 5) Object3) = Some (Some 0.1) \<and>
   map_option viscosity (material_of (main_scene demo_device 2) Object3) = Some None \<and>
   map_option viscosity (material_of (main_scene other_device 5) Object3) = Some None \<and>
   map_option vibrationFrequency (material_of (main_scene demo_device 2) Object3) = Some (Some 60) \<and>
   map_option vibrationFrequency (material_of (main_scene other_device 5) Object3) = Some (Some 60) \<and>
   m_maxLinearForce demo_device \<noteq> m_maxLinearForce other_device \<and>
   m_maxLinearStiffness demo_device / 2 \<noteq> m_maxLinearStiffness other_device / 5 \<and>
   m_maxLinearDamping demo_device / 2 \<noteq> m_maxLinearDamping other_device / 5"
  by (simp add: effects_of_def material_of_def main_scene_sphere0 main_scene_sphere3
      new_material_def demo_device_def other_device_def)

text \<open>
  Claim C6, amended.  \<open>main\<close> creates a surface effect on \<open>object0\<close> and
  \<open>object3\<close>, a viscosity effect on \<open>object1\<close> and \<open>object3\<close>, a stick-slip effect on
  \<open>object2\<close> and a vibration effect on \<open>object3\<close>, and no other effect.  From the
  limits of the device it sets the viscosity of \<open>object1\<close> (0.9 of the maximal damping),
  the stick-slip force (0.2 of the maximal force) and stick-slip stiffness (0.6 of the
  maximal stiffness) of \<open>object2\<close>, and the vibration amplitude of \<open>object3\<close> (0.5 of
  the maximal force), where the maximal force is capped at 7 and the maximal stiffness and
  damping are divided by the workspace scale factor.  The stiffness 0.1 and the vibration
  frequency 60 of \<open>object3\<close> are constants, and \<open>main\<close> sets nothing else.
\<close>

theorem main_scene_effects:
  "w \<noteq> 0 \<Longrightarrow>
   effects_of (main_scene info w) Object0 = Some [EffectSurface] \<and>
   effects_of (main_scene info w) Object1 = Some [EffectViscosity] \<and>
   effects_of (main_scene info w) Object2 = Some [EffectStickSlip] \<and>
   effects_of (main_scene info w) Object3 = Some [EffectVibration, EffectSurface, EffectViscosity] \<and>
   material_of (main_scene info w) Object0 = Some new_material \<and>
   material_of (main_scene info w) Object1 =
     Some (new_material\<lparr>viscosity := Some (0.9 * (m_maxLinearDamping info / w))\<rparr>) \<and>
   material_of (main_scene info w) Object2 =
     Some (new_material\<lparr>
       stickSlipForceMax := Some (0.2 * min (m_maxLinearForce info) 7),
       stickSlipStiffness := Some (0.6 * (m_maxLinearStiffness info / w))\<rparr>) \<and>
   material_of (main_scene info w) Object3 =
     Some (new_material\<lparr>
       stiffness := Some 0.1,
       vibrationFrequency := Some 60,
       vibrationAmplitude := Some (0.5 * min (m_maxLinearForce info) 7)\<rparr>)"
  by (simp add: effects_of_def material_of_def main_scene_sphere0 main_scene_sphere1
      main_scene_sphere2 main_scene_sphere3)

theorem main_scene_effects_witness:
  "(2::real) \<noteq> 0 \<and>
   effects_of (main_scene demo_device 2) Object0 = Some [EffectSurface] \<and>
   effects_of (main_scene demo_device 2) Object1 = Some [EffectViscosity] \<and>
   effects_of (main_scene demo_device 2) Object2 = Some [EffectStickSlip] \<and>
   effects_of (main_scene demo_device 2) Object3 = Some [EffectVibration, EffectSurface, EffectViscosity] \<and>
   map_option viscosity (material_of (main_scene demo_device 2) Object1) = Some (Some 9) \<and>
   map_option stickSlipForceMax (material_of (main_scene demo_device 2) Object2) = Some (Some 1.4) \<and>
   map_option stickSlipStiffness (material_of (main_scene demo_device 2) Object2) = Some (Some 300) \<and>
   map_option vibrationAmplitude (material_of (main_scene demo_device 2) Object3) = Some (Some 3.5) \<and>
   map_option stiffness (material_of (main_scene demo_device 2) Object3) = Some (Some 0.1)"
  using main_scene_effects [of 2 demo_device]
  by (simp add: demo_device_def new_material_def)

subsection \<open>The key callback\<close>

lemma onKeyCallback_window [simp]:
  "window (onKeyCallback a_window a_key a_scancode a_action a_mods g) = window g"
  by (simp add: onKeyCallback_def glfwSetWindowShouldClose_def glfwSetWindowMonitor_def
      glfwSwapInterval_def glfwWindowHint_def setMirrorVertical_def Let_def)

lemma onKeyCallback_keeps_close:
  "windowShouldClose g w \<Longrightarrow>
     windowShouldClose (onKeyCallback a_window a_key a_scancode a_action a_mods g) w"
  by (auto simp add: onKeyCallback_def glfwSetWindowShouldClose_def glfwSetWindowMonitor_def
      glfwSwapInterval_def glfwWindowHint_def setMirrorVertical_def Let_def GLFW_TRUE_def)

lemma onKeyCallback_quit:
  "a_action = GLFW_PRESS \<or> a_action = GLFW_REPEAT \<Longrightarrow>
   a_key = GLFW_KEY_ESCAPE \<or> a_key = GLFW_KEY_Q \<Longrightarrow>
     windowShouldClose (onKeyCallback a_window a_key a_scancode a_action a_mods g) a_window"
  by (auto simp add: onKeyCallback_def glfwSetWindowShouldClose_def GLFW_TRUE_def)

lemma glfwPollEvents_Nil [simp]: "glfwPollEvents [] g = g"
  by (simp add: glfwPollEvents_def)

lemma glfwPollEvents_Cons:
  "glfwPollEvents ((k, sc, a, m) # evs) g = glfwPollEvents evs (onKeyCallback (window g) k sc a m g)"
  by (simp add: glfwPollEvents_def)

lemma glfwPollEvents_window [simp]: "window (glfwPollEvents evs g) = window g"
  by (induction evs arbitrary: g) (auto simp add: glfwPollEvents_Cons)

lemma glfwPollEvents_keeps_close:
  "windowShouldClose g w \<Longrightarrow> windowShouldClose (glfwPollEvents evs g) w"
  by (induction evs arbitrary: g) (auto simp add: glfwPollEvents_Cons onKeyCallback_keeps_close)

lemma glfwPollEvents_quit:
  "(k, sc, GLFW_PRESS, m) \<in> set evs \<Longrightarrow> k = GLFW_KEY_ESCAPE \<or> k = GLFW_KEY_Q \<Longrightarrow>
     windowShouldClose (glfwPollEvents evs g) (window g)"
proof (induction evs arbitrary: g)
  case Nil
  then show ?case by simp
next
  case (Cons ev evs)
  obtain k' sc' a' m' where ev: "ev = (k', sc', a', m')"
    by (cases ev) auto
  show ?case
  proof (cases "ev = (k, sc, GLFW_PRESS, m)")
    case True
    then have "windowShouldClose (onKeyCallback (window g) k sc GLFW_PRESS m g) (window g)"
      using Cons.prems(2) by (intro onKeyCallback_quit) auto
    then show ?thesis
      using True by (simp add: glfwPollEvents_Cons glfwPollEvents_keeps_close)
  next
    case False
    then have "(k, sc, GLFW_PRESS, m) \<in> set evs"
      using Cons.prems(1) by auto
    then have "windowShouldClose (glfwPollEvents evs (onKeyCallback (window g) k' sc' a' m' g))
                 (window (onKeyCallback (window g) k' sc' a' m' g))"
      using Cons.prems(2) by (intro Cons.IH)
    then show ?thesis
      by (simp add: ev glfwPollEvents_Cons)
  qed
qed

lemma main_graphic_loop_closed:
  "windowShouldClose g (window g) \<Longrightarrow> main_graphic_loop polls g = Some g"
  by (cases polls) auto

text \<open>
  Claim C10.  For a key event whose action is neither press nor repeat the callback
  returns the state it was given: the fullscreen flag, the mirroring flag, the camera's
  mirror setting, the placement of the window and every close flag are unchanged.  A
  press of Escape or Q sets the close flag of the window the event is for and changes
  nothing else; for the window of \<open>main\<close> the test of the graphic loop then fails, so
  the loop ends: at once when entered in that state, and after the poll that delivered
  the key when the flag was clear before.
\<close>

theorem onKeyCallback_release_and_quit:
  "(a_action \<noteq> GLFW_PRESS \<and> a_action \<noteq> GLFW_REPEAT \<longrightarrow>
      onKeyCallback a_window a_key a_scancode a_action a_mods g = g) \<and>
   (a_action = GLFW_PRESS \<and> (a_key = GLFW_KEY_ESCAPE \<or> a_key = GLFW_KEY_Q) \<longrightarrow>
      onKeyCallback a_window a_key a_scancode a_action a_mods g =
        g\<lparr>windowShouldClose := (windowShouldClose g)(a_window := True)\<rparr> \<and>
      windowShouldClose (onKeyCallback (window g) a_key a_scancode a_action a_mods g) (window g) \<and>
      main_graphic_loop polls (onKeyCallback (window g) a_key a_scancode a_action a_mods g) =
        Some (onKeyCallback (window g) a_key a_scancode a_action a_mods g)) \<and>
   (\<not> windowShouldClose g (window g) \<and> (a_key, a_scancode, GLFW_PRESS, a_mods) \<in> set evs \<and>
    (a_key = GLFW_KEY_ESCAPE \<or> a_key = GLFW_KEY_Q) \<longrightarrow>
      main_graphic_loop (evs # polls) g = Some (glfwPollEvents evs g))"
proof (intro conjI impI)
  assume "a_action \<noteq> GLFW_PRESS \<and> a_action \<noteq> GLFW_REPEAT"
  then show "onKeyCallback a_window a_key a_scancode a_action a_mods g = g"
    by (simp add: onKeyCallback_def)
next
  assume h: "a_action = GLFW_PRESS \<and> (a_key = GLFW_KEY_ESCAPE \<or> a_key = GLFW_KEY_Q)"
  then show "onKeyCallback a_window a_key a_scancode a_action a_mods g =
        g\<lparr>windowShouldClose := (windowShouldClose g)(a_window := True)\<rparr>"
    by (auto simp add: onKeyCallback_def glfwSetWindowShouldClose_def GLFW_TRUE_def)
  from h show c: "windowShouldClose (onKeyCallback (window g) a_key a_scancode a_action a_mods g) (window g)"
    by (intro onKeyCallback_quit) auto
  then show "main_graphic_loop polls (onKeyCallback (window g) a_key a_scancode a_action a_mods g) =
        Some (onKeyCallback (window g) a_key a_scancode a_action a_mods g)"
    by (intro main_graphic_loop_closed) simp
next
  assume h: "\<not> windowShouldClose g (window g) \<and> (a_key, a_scancode, GLFW_PRESS, a_mods) \<in> set evs \<and>
    (a_key = GLFW_KEY_ESCAPE \<or> a_key = GLFW_KEY_Q)"
  then have "windowShouldClose (glfwPollEvents evs g) (window (glfwPollEvents evs g))"
    using glfwPollEvents_quit [of a_key a_scancode a_mods evs g] by simp
  then have "main_graphic_loop polls (glfwPollEvents evs g) = Some (glfwPollEvents evs g)"
    by (rule main_graphic_loop_closed)
  then show "main_graphic_loop (evs # polls) g = Some (glfwPollEvents evs g)"
    using h by simp
qed

lemmas gui_eval = onKeyCallback_def glfwSetWindowShouldClose_def glfwSetWindowMonitor_def
  glfwSwapInterval_def glfwWindowHint_def setMirrorVertical_def glfwPollEvents_def
  GLFW_RELEASE_def GLFW_PRESS_def GLFW_REPEAT_def GLFW_TRUE_def GLFW_KEY_ESCAPE_def
  GLFW_KEY_F_def GLFW_KEY_M_def GLFW_KEY_Q_def GLFW_SAMPLES_def swapInterval_def
  int_of_double_def demo_gui_def Let_def

theorem onKeyCallback_release_and_quit_witness:
  "GLFW_RELEASE \<noteq> GLFW_PRESS \<and> GLFW_RELEASE \<noteq> GLFW_REPEAT \<and>
   onKeyCallback 1 GLFW_KEY_F 41 GLFW_RELEASE 0 demo_gui = demo_gui \<and>
   onKeyCallback 1 GLFW_KEY_Q 24 GLFW_RELEASE 0 demo_gui = demo_gui \<and>
   windowShouldClose (onKeyCallback (window demo_gui) GLFW_KEY_Q 24 GLFW_PRESS 0 demo_gui) (window demo_gui) \<and>
   main_graphic_loop [[(GLFW_KEY_M, 58, GLFW_PRESS, 0)]]
       (onKeyCallback (window demo_gui) GLFW_KEY_Q 24 GLFW_PRESS 0 demo_gui) =
     Some (onKeyCallback (window demo_gui) GLFW_KEY_Q 24 GLFW_PRESS 0 demo_gui) \<and>
   \<not> windowShouldClose demo_gui (window demo_gui) \<and>
   (GLFW_KEY_ESCAPE, 9, GLFW_PRESS, 0) \<in> set [(GLFW_KEY_M, 58, GLFW_PRESS, 0), (GLFW_KEY_ESCAPE, 9, GLFW_PRESS, 0)] \<and>
   main_graphic_loop
       [[(GLFW_KEY_M, 58, GLFW_PRESS, 0), (GLFW_KEY_ESCAPE, 9, GLFW_PRESS, 0)],
        [(GLFW_KEY_M, 58, GLFW_PRESS, 0)]] demo_gui =
     Some (demo_gui\<lparr>mirroredDisplay := True, cameraMirrorVertical := True,
                     windowShouldClose := (windowShouldClose demo_gui)(1 := True)\<rparr>)"
  using onKeyCallback_release_and_quit [of GLFW_RELEASE 1 GLFW_KEY_F 41 0 demo_gui]
    onKeyCallback_release_and_quit [of GLFW_RELEASE 1 GLFW_KEY_Q 24 0 demo_gui]
    onKeyCallback_release_and_quit [of GLFW_PRESS 1 GLFW_KEY_Q 24 0 demo_gui
      "[[(GLFW_KEY_M, 58, GLFW_PRESS, 0)]]"]
    onKeyCallback_release_and_quit [of GLFW_PRESS 1 GLFW_KEY_ESCAPE 9 0 demo_gui
      "[[(GLFW_KEY_M, 58, GLFW_PRESS, 0)]]"
      "[(GLFW_KEY_M, 58, GLFW_PRESS, 0), (GLFW_KEY_ESCAPE, 9, GLFW_PRESS, 0)]"]
  by (simp add: gui_eval)

subsection \<open>The shutdown handshake\<close>

text \<open>
  Once the haptics thread has passed line 723 before \<open>close\<close> begins, the handshake
  works under every schedule: when the tool has been stopped, \<open>renderHaptics\<close> has
  left its loop and set \<open>simulationFinished\<close>.
\<close>

lemma handshake_step_renderHaptics: "handshake t \<Longrightarrow> handshake (step_renderHaptics r t)"
  by (cases "hpc t") (auto simp add: handshake_def step_renderHaptics_def)

lemma handshake_step_close: "handshake t \<Longrightarrow> handshake (step_close t)"
  by (cases "cpc t") (auto simp add: handshake_def step_close_def)

lemma handshake_run: "handshake t \<Longrightarrow> handshake (run_threads sch t)"
proof (induction sch arbitrary: t)
  case Nil
  then show ?case by simp
next
  case (Cons a sch)
  then show ?case
    by (cases a) (simp_all add: handshake_step_renderHaptics handshake_step_close)
qed

lemma close_after_prologue:
  assumes "hpc t = H_test \<or> hpc t = H_body" "\<not> simulationFinished (shared t)"
    "cpc t = C_clearRunning" "\<not> toolStopped t"
    "toolStopped (run_threads sch t)"
  shows "hpc (run_threads sch t) = H_returned \<and> simulationFinished (shared (run_threads sch t))"
proof -
  have "handshake t"
    using assms(1-4) by (auto simp add: handshake_def)
  then have "handshake (run_threads sch t)"
    by (rule handshake_run)
  then show ?thesis
    using assms(5) by (auto simp add: handshake_def)
qed

text \<open>
  Claim C7, evaluated where it fails.  Nothing makes the haptics thread pass line 723
  before \<open>close\<close> begins, and \<open>simulationFinished\<close> is declared \<open>true\<close> (line 75).
  Schedule: \<open>close\<close> clears \<open>simulationRunning\<close> and finds \<open>simulationFinished\<close> still
  true, so its wait ends at the first test; the haptics thread then executes lines 722
  and 723, finds \<open>simulationRunning\<close> set and enters the loop body; \<open>close\<close> now stops
  the tool.  The tool is stopped with the haptics thread inside the body,
  \<open>simulationRunning\<close> true and \<open>simulationFinished\<close> false: the loop has not exited.
\<close>

theorem close_overtakes_renderHaptics:
  "hpc (run_threads
      [MainThread, MainThread,
       HapticsThread (demo_readings (Vec3 3 0 0) (Vec3 0 0 0) (Vec3 0 0 0)),
       HapticsThread (demo_readings (Vec3 3 0 0) (Vec3 0 0 0) (Vec3 0 0 0)),
       HapticsThread (demo_readings (Vec3 3 0 0) (Vec3 0 0 0) (Vec3 0 0 0))] threads_start) = H_body \<and>
   cpc (run_threads
      [MainThread, MainThread,
       HapticsThread (demo_readings (Vec3 3 0 0) (Vec3 0 0 0) (Vec3 0 0 0)),
       HapticsThread (demo_readings (Vec3 3 0 0) (Vec3 0 0 0) (Vec3 0 0 0)),
       HapticsThread (demo_readings (Vec3 3 0 0) (Vec3 0 0 0) (Vec3 0 0 0))] threads_start) = C_stop \<and>
   toolStopped (run_threads
      [MainThread, MainThread,
       HapticsThread (demo_readings (Vec3 3 0 0) (Vec3 0 0 0) (Vec3 0 0 0)),
       HapticsThread (demo_readings (Vec3 3 0 0) (Vec3 0 0 0) (Vec3 0 0 0)),
       HapticsThread (demo_readings (Vec3 3 0 0) (Vec3 0 0 0) (Vec3 0 0 0)),
       MainThread] threads_start) \<and>
   hpc (run_threads
      [MainThread, MainThread,
       HapticsThread (demo_readings (Vec3 3 0 0) (Vec3 0 0 0) (Vec3 0 0 0)),
       HapticsThread (demo_readings (Vec3 3 0 0) (Vec3 0 0 0) (Vec3 0 0 0)),
       HapticsThread (demo_readings (Vec3 3 0 0) (Vec3 0 0 0) (Vec3 0 0 0)),
       MainThread] threads_start) = H_body \<and>
   simulationRunning (shared (run_threads
      [MainThread, MainThread,
       HapticsThread (demo_readings (Vec3 3 0 0) (Vec3 0 0 0) (Vec3 0 0 0)),
       HapticsThread (demo_readings (Vec3 3 0 0) (Vec3 0 0 0) (Vec3 0 0 0)),
       HapticsThread (demo_readings (Vec3 3 0 0) (Vec3 0 0 0) (Vec3 0 0 0)),
       MainThread] threads_start)) \<and>
   \<not> simulationFinished (shared (run_threads
      [MainThread, MainThread,
       HapticsThread (demo_readings (Vec3 3 0 0) (Vec3 0 0 0) (Vec3 0 0 0)),
       HapticsThread (demo_readings (Vec3 3 0 0) (Vec3 0 0 0) (Vec3 0 0 0)),
       HapticsThread (demo_readings (Vec3 3 0 0) (Vec3 0 0 0) (Vec3 0 0 0)),
       MainThread] threads_start))"
  by (simp add: threads_start_def step_close_def step_renderHaptics_def)

end
